theory Spec2Isabelle
  imports Complex_Main
begin

section \<open>Data model\<close>

text \<open>
  The service keeps its state in a relational store reached through a query builder.
  Each table is a list of rows in insertion order; a query is a list comprehension over
  the tables it joins, \<open>.first()\<close> takes the head of the result, and an update maps over
  the rows its where-clause selects. Identifiers are integers, dates are day numbers
  (only their order matters). The amounts of the store's columns are decimals, kept as
  exact rationals; so are the sums of stored amounts the ledger and the reports show.
  Where a handler decides with JavaScript numbers, in the balance check of a posting, the
  numbers are the binary64 numbers of the next section.
  String-valued columns the handlers compare (\<open>normal_balance\<close>, \<open>status\<close>, the name of an
  account type) stay strings.
\<close>

record account_type_row =
  at_id :: int
  at_name :: string
  at_normal_balance :: string

record account_category_row =
  ac_id :: int
  ac_organization_id :: int
  ac_name :: string
  ac_account_type_id :: int

record account_row =
  a_id :: int
  a_organization_id :: int
  a_code :: string
  a_name :: string
  a_description :: "string option"
  a_account_type_id :: int
  a_account_category_id :: "int option"
  a_parent_account_id :: "int option"
  a_is_active :: bool
  a_is_bank_account :: bool
  a_bank_account_details :: "string option"
  a_updated_at :: nat

record account_balance_row =
  ab_account_id :: int
  ab_organization_id :: int
  ab_balance :: rat

record journal_entry_row =
  je_id :: int
  je_organization_id :: int
  je_date :: int
  je_reference :: string
  je_description :: "string option"
  je_status :: string

record journal_entry_line_row =
  jl_id :: int
  jl_journal_entry_id :: int
  jl_account_id :: int
  jl_description :: "string option"
  jl_debit_amount :: rat
  jl_credit_amount :: rat
  jl_tax_rate :: "rat option"
  jl_tax_amount :: "rat option"

record database =
  accounts :: "account_row list"
  account_types :: "account_type_row list"
  account_categories :: "account_category_row list"
  account_balances :: "account_balance_row list"
  journal_entries :: "journal_entry_row list"
  journal_entry_lines :: "journal_entry_line_row list"

text \<open>\<open>.first()\<close> of a query result: the first row, or nothing (\<open>undefined\<close>).\<close>

definition first_row :: "'a list \<Rightarrow> 'a option" where
  "first_row rows = (case rows of [] \<Rightarrow> None | r # _ \<Rightarrow> Some r)"

text \<open>The identifier the store gives an inserted row: one more than the largest in use.\<close>

definition fresh_id :: "int list \<Rightarrow> int" where
  "fresh_id ids = fold max ids 0 + 1"

section \<open>JavaScript numbers\<close>

text \<open>
  A JavaScript number is a binary64 floating-point number: a finite one, which is a
  rational, an infinity or \<open>NaN\<close>. Every arithmetic operation gives the exact result
  rounded to the nearest binary64 number, ties to the even significand, and an infinity
  once the rounded magnitude reaches \<open>2^1024\<close>.
\<close>

datatype js_number =
  Double rat
  | Infinity
  | NegInfinity
  | NaN

definition pow2 :: "int \<Rightarrow> rat" where
  "pow2 k = (if 0 \<le> k then 2 ^ nat k else 1 / 2 ^ nat (- k))"

text \<open>
  The binary exponent \<open>e\<close> of a positive rational \<open>x\<close>, with \<open>2^e \<le> x < 2^(e+1)\<close>:
  by halving from 1 upwards, by doubling below 1.
\<close>

function exponent_up :: "rat \<Rightarrow> int" where
  "exponent_up x = (if 2 \<le> x then exponent_up (x / 2) + 1 else 0)"
  by pat_completeness auto
termination
proof (relation "measure (\<lambda>x. nat \<lfloor>x\<rfloor>)")
  show "wf (measure (\<lambda>x::rat. nat \<lfloor>x\<rfloor>))" by simp
next
  fix x :: rat
  assume "2 \<le> x"
  then have "x / 2 \<le> x - 1" by simp
  then have "\<lfloor>x / 2\<rfloor> \<le> \<lfloor>x - 1\<rfloor>" by (rule floor_mono)
  moreover have "1 \<le> \<lfloor>x\<rfloor>" using \<open>2 \<le> x\<close> by (simp add: le_floor_iff)
  ultimately show "(x / 2, x) \<in> measure (\<lambda>x. nat \<lfloor>x\<rfloor>)" by simp
qed

function exponent_down :: "rat \<Rightarrow> int" where
  "exponent_down x = (if 0 < x \<and> x < 1 then exponent_down (2 * x) - 1 else 0)"
  by pat_completeness auto
termination
proof (relation "measure (\<lambda>x. nat \<lfloor>1 / x\<rfloor>)")
  show "wf (measure (\<lambda>x::rat. nat \<lfloor>1 / x\<rfloor>))" by simp
next
  fix x :: rat
  assume h: "0 < x \<and> x < 1"
  then have y: "1 < 1 / x" by simp
  have a: "1 \<le> \<lfloor>1 / x\<rfloor>" using y by (simp add: le_floor_iff)
  have "\<lfloor>1 / (2 * x)\<rfloor> < \<lfloor>1 / x\<rfloor>"
  proof (cases "1 / x < 2")
    case True
    then have "1 / (2 * x) < 1" using h by (simp add: field_simps)
    moreover have "0 \<le> 1 / (2 * x)" using h by simp
    ultimately have "\<lfloor>1 / (2 * x)\<rfloor> = 0" by (simp add: floor_eq_iff)
    with a show ?thesis by simp
  next
    case False
    then have "1 / (2 * x) \<le> 1 / x - 1" using h by (simp add: field_simps)
    then have "\<lfloor>1 / (2 * x)\<rfloor> \<le> \<lfloor>1 / x - 1\<rfloor>" by (rule floor_mono)
    then show ?thesis by simp
  qed
  with a show "(2 * x, x) \<in> measure (\<lambda>x. nat \<lfloor>1 / x\<rfloor>)" by simp
qed

declare exponent_up.simps [simp del] exponent_down.simps [simp del]

text \<open>Rounding to the nearest integer, a tie to the even one.\<close>

definition round_half_even :: "rat \<Rightarrow> int" where
  "round_half_even y =
     (if y - of_int \<lfloor>y\<rfloor> < 1 / 2 then \<lfloor>y\<rfloor>
      else if 1 / 2 < y - of_int \<lfloor>y\<rfloor> then \<lfloor>y\<rfloor> + 1
      else if even \<lfloor>y\<rfloor> then \<lfloor>y\<rfloor> else \<lfloor>y\<rfloor> + 1)"

text \<open>
  The binary64 number nearest to a rational. A number of exponent \<open>e\<close> has 53
  significant bits, so its last bit is worth \<open>2^(e - 52)\<close>, and \<open>2^(-1074)\<close> in the
  subnormal range below \<open>2^(-1022)\<close>. This is also how the parser of a JSON body reads
  the decimal a request writes.
\<close>

definition to_double :: "rat \<Rightarrow> js_number" where
  "to_double x =
     (if x = 0 then Double 0
      else
        (let e = (if 1 \<le> \<bar>x\<bar> then exponent_up \<bar>x\<bar> else exponent_down \<bar>x\<bar>);
             k = max e (- 1022) - 52;
             r = of_int (round_half_even (\<bar>x\<bar> / pow2 k)) * pow2 k
         in if 2 ^ 1024 \<le> r then (if 0 < x then Infinity else NegInfinity)
            else Double (if 0 < x then r else - r)))"

text \<open>\<open>x + y\<close>, \<open>-x\<close>, \<open>x - y\<close>, \<open>Math.abs(x)\<close>, \<open>x > y\<close> and \<open>x || 0\<close>.\<close>

fun js_plus :: "js_number \<Rightarrow> js_number \<Rightarrow> js_number" where
  "js_plus (Double a) (Double b) = to_double (a + b)"
| "js_plus NaN y = NaN"
| "js_plus x NaN = NaN"
| "js_plus Infinity NegInfinity = NaN"
| "js_plus NegInfinity Infinity = NaN"
| "js_plus Infinity y = Infinity"
| "js_plus x Infinity = Infinity"
| "js_plus NegInfinity y = NegInfinity"
| "js_plus x NegInfinity = NegInfinity"

fun js_negate :: "js_number \<Rightarrow> js_number" where
  "js_negate (Double a) = Double (- a)"
| "js_negate Infinity = NegInfinity"
| "js_negate NegInfinity = Infinity"
| "js_negate NaN = NaN"

definition js_minus :: "js_number \<Rightarrow> js_number \<Rightarrow> js_number" where
  "js_minus x y = js_plus x (js_negate y)"

fun js_abs :: "js_number \<Rightarrow> js_number" where
  "js_abs (Double a) = Double \<bar>a\<bar>"
| "js_abs Infinity = Infinity"
| "js_abs NegInfinity = Infinity"
| "js_abs NaN = NaN"

fun js_greater :: "js_number \<Rightarrow> js_number \<Rightarrow> bool" where
  "js_greater (Double a) (Double b) = (b < a)"
| "js_greater NaN y = False"
| "js_greater x NaN = False"
| "js_greater x Infinity = False"
| "js_greater Infinity y = True"
| "js_greater NegInfinity y = False"
| "js_greater x NegInfinity = True"

fun or_zero :: "js_number \<Rightarrow> js_number" where
  "or_zero NaN = Double 0"
| "or_zero x = x"

section \<open>Responses and the error handling middleware\<close>

text \<open>
  A response is the HTTP status with either the \<open>data\<close> of a success or the \<open>code\<close> and
  \<open>details\<close> of an error. An exception is the \<open>name\<close>, \<open>code\<close> and \<open>message\<close> the
  middleware of \<open>app.js\<close> reads.
\<close>

datatype details =
  NoDetails
  | BalanceDetails js_number js_number js_number
  | MessageDetails string

datatype 'a response =
  Success nat 'a
  | Failure nat string details

record js_error =
  e_name :: string
  e_code :: "string option"
  e_message :: string

definition new_Error :: "string \<Rightarrow> js_error" where
  "new_Error msg = \<lparr>e_name = ''Error'', e_code = None, e_message = msg\<rparr>"

fun starts_with :: "string \<Rightarrow> string \<Rightarrow> bool" where
  "starts_with s [] = True"
| "starts_with [] (c # t) = False"
| "starts_with (a # s) (c # t) = (a = c \<and> starts_with s t)"

text \<open>\<open>String.prototype.includes\<close>: the second string occurs in the first.\<close>

fun str_includes :: "string \<Rightarrow> string \<Rightarrow> bool" where
  "str_includes [] t = (t = [])"
| "str_includes (a # s) t = (starts_with (a # s) t \<or> str_includes s t)"

text \<open>
  The error handling middleware of \<open>app.js\<close>; \<open>development\<close> says whether \<open>NODE_ENV\<close> is
  \<open>'development'\<close>, the only case where the message is passed on.
\<close>

definition error_middleware :: "bool \<Rightarrow> js_error \<Rightarrow> 'a response" where
  "error_middleware development err =
     (if e_code err = Some ''ECONNREFUSED'' \<or> str_includes (e_message err) ''timeout''
         \<or> str_includes (e_message err) ''pool'' \<or> str_includes (e_message err) ''connection''
      then Failure 503 ''DATABASE_ERROR''
             (if development then MessageDetails (e_message err) else NoDetails)
      else if e_name err = ''ValidationError''
      then Failure 400 ''VALIDATION_ERROR'' NoDetails
      else Failure 500 ''SERVER_ERROR''
             (if development then MessageDetails (e_message err) else NoDetails))"

text \<open>Decimal rendering of an integer, as a template literal renders a safe integer.\<close>

definition digit_char :: "nat \<Rightarrow> char" where
  "digit_char n = ''0123456789'' ! (n mod 10)"

function digits :: "nat \<Rightarrow> string" where
  "digits n = (if n < 10 then [digit_char n] else digits (n div 10) @ [digit_char n])"
  by pat_completeness auto
termination
  by (relation "measure (\<lambda>n. n)") auto

declare digits.simps [simp del]

definition show_int :: "int \<Rightarrow> string" where
  "show_int i = (if i < 0 then CHR ''-'' # digits (nat (- i)) else digits (nat i))"

section \<open>Journal engine: posting an entry\<close>

text \<open>
  The body of \<open>POST /journal-entries\<close> after schema validation. An amount of a line is
  the decimal the request writes (0 when it writes none); the handler has it as the
  binary64 number the parser made of it, which \<open>parseFloat\<close> returns as it is.
\<close>

record entry_line =
  l_accountId :: int
  l_description :: "string option"
  l_debitAmount :: rat
  l_creditAmount :: rat
  l_taxRate :: "rat option"
  l_taxAmount :: "rat option"

record entry_body =
  b_organizationId :: int
  b_date :: int
  b_reference :: string
  b_description :: "string option"
  b_lines :: "entry_line list"

record created_line =
  cl_id :: int
  cl_accountId :: int
  cl_accountCode :: string
  cl_accountName :: string
  cl_description :: "string option"
  cl_debitAmount :: rat
  cl_creditAmount :: rat
  cl_taxRate :: "rat option"
  cl_taxAmount :: "rat option"

record post_data =
  pd_entry :: "journal_entry_row option"
  pd_lines :: "created_line list"
  pd_totalDebit :: js_number
  pd_totalCredit :: js_number

text \<open>
  The two \<open>reduce\<close> calls, \<open>sum + (parseFloat(line.debitAmount) || 0)\<close> from 0, and the
  test of the balance check, \<open>Math.abs(totalDebit - totalCredit) > 0.001\<close>.
\<close>

definition totalDebit :: "entry_line list \<Rightarrow> js_number" where
  "totalDebit lines =
     foldl (\<lambda>sum line. js_plus sum (or_zero (to_double (l_debitAmount line)))) (Double 0) lines"

definition totalCredit :: "entry_line list \<Rightarrow> js_number" where
  "totalCredit lines =
     foldl (\<lambda>sum line. js_plus sum (or_zero (to_double (l_creditAmount line)))) (Double 0) lines"

definition out_of_balance :: "entry_line list \<Rightarrow> bool" where
  "out_of_balance lines =
     js_greater (js_abs (js_minus (totalDebit lines) (totalCredit lines))) (to_double (1 / 1000))"

text \<open>The row inserted into \<open>journal_entries\<close>, and its generated id.\<close>

definition insert_journal_entry :: "entry_body \<Rightarrow> database \<Rightarrow> int \<times> database" where
  "insert_journal_entry body trx =
     (let journalEntryId = fresh_id (map je_id (journal_entries trx))
      in (journalEntryId,
          trx\<lparr>journal_entries := journal_entries trx @
                [\<lparr>je_id = journalEntryId, je_organization_id = b_organizationId body,
                  je_date = b_date body, je_reference = b_reference body,
                  je_description = b_description body, je_status = ''posted''\<rparr>]\<rparr>))"

fun number_lines :: "int \<Rightarrow> int \<Rightarrow> entry_line list \<Rightarrow> journal_entry_line_row list" where
  "number_lines journalEntryId next [] = []"
| "number_lines journalEntryId next (line # lines) =
     \<lparr>jl_id = next, jl_journal_entry_id = journalEntryId, jl_account_id = l_accountId line,
      jl_description = l_description line, jl_debit_amount = l_debitAmount line,
      jl_credit_amount = l_creditAmount line, jl_tax_rate = l_taxRate line,
      jl_tax_amount = l_taxAmount line\<rparr>
     # number_lines journalEntryId (next + 1) lines"

definition insert_journal_entry_lines :: "int \<Rightarrow> entry_line list \<Rightarrow> database \<Rightarrow> database" where
  "insert_journal_entry_lines journalEntryId lines trx =
     trx\<lparr>journal_entry_lines := journal_entry_lines trx @
           number_lines journalEntryId (fresh_id (map jl_id (journal_entry_lines trx))) lines\<rparr>"

text \<open>
  The account lookup of the balance loop: \<open>accounts\<close> joined with \<open>account_types\<close>,
  filtered by the account id alone.
\<close>

definition accounts_join_types :: "database \<Rightarrow> (account_row \<times> account_type_row) list" where
  "accounts_join_types d =
     [(a, t). a \<leftarrow> accounts d, t \<leftarrow> account_types d, a_account_type_id a = at_id t]"

definition account_with_type :: "database \<Rightarrow> int \<Rightarrow> (account_row \<times> account_type_row) option" where
  "account_with_type trx accountId =
     first_row (filter (\<lambda>(a, t). a_id a = accountId) (accounts_join_types trx))"

definition balanceChange :: "string \<Rightarrow> rat \<Rightarrow> rat \<Rightarrow> rat" where
  "balanceChange normalBalance debitAmount creditAmount =
     (if normalBalance = ''debit'' then debitAmount - creditAmount
      else creditAmount - debitAmount)"

text \<open>
  \<open>trx('account_balances').where({account_id, organization_id}).increment('balance', c)\<close>:
  every row the where-clause selects is incremented; with no such row nothing happens.
\<close>

definition increment_balance :: "int \<Rightarrow> int \<Rightarrow> rat \<Rightarrow> database \<Rightarrow> database" where
  "increment_balance accountId organizationId change trx =
     trx\<lparr>account_balances :=
           map (\<lambda>b. if ab_account_id b = accountId \<and> ab_organization_id b = organizationId
                    then b\<lparr>ab_balance := ab_balance b + change\<rparr> else b)
               (account_balances trx)\<rparr>"

text \<open>The message of the exception for a missing account.\<close>

definition not_found_message :: "int \<Rightarrow> string" where
  "not_found_message accountId = ''Account with ID '' @ show_int accountId @ '' not found''"

fun update_balances :: "int \<Rightarrow> entry_line list \<Rightarrow> database \<Rightarrow> js_error + database" where
  "update_balances organizationId [] trx = Inr trx"
| "update_balances organizationId (line # lines) trx =
     (case account_with_type trx (l_accountId line) of
        None \<Rightarrow>
          Inl (new_Error (not_found_message (l_accountId line)))
      | Some (a, t) \<Rightarrow>
          update_balances organizationId lines
            (increment_balance (l_accountId line) organizationId
               (balanceChange (at_normal_balance t) (l_debitAmount line) (l_creditAmount line))
               trx))"

text \<open>The reads after the commit that build the response.\<close>

definition created_lines :: "database \<Rightarrow> int \<Rightarrow> created_line list" where
  "created_lines d journalEntryId =
     [\<lparr>cl_id = jl_id l, cl_accountId = jl_account_id l, cl_accountCode = a_code a,
       cl_accountName = a_name a, cl_description = jl_description l,
       cl_debitAmount = jl_debit_amount l, cl_creditAmount = jl_credit_amount l,
       cl_taxRate = jl_tax_rate l, cl_taxAmount = jl_tax_amount l\<rparr>.
      l \<leftarrow> journal_entry_lines d, a \<leftarrow> accounts d,
      jl_account_id l = a_id a, jl_journal_entry_id l = journalEntryId]"

text \<open>
  The handler. The balance check runs before the transaction opens; inside the
  transaction every statement works on \<open>trx\<close>, and the catch block rolls back, which
  leaves the store as it was, and hands the exception to the middleware.
\<close>

definition post_journal_entry ::
  "bool \<Rightarrow> entry_body \<Rightarrow> database \<Rightarrow> post_data response \<times> database" where
  "post_journal_entry development body d =
     (let lines = b_lines body;
          td = totalDebit lines;
          tc = totalCredit lines
      in if out_of_balance lines
         then (Failure 400 ''UNBALANCED_ENTRY'' (BalanceDetails td tc (js_minus td tc)), d)
         else
           (let (journalEntryId, trx1) = insert_journal_entry body d;
                trx2 = insert_journal_entry_lines journalEntryId lines trx1
            in case update_balances (b_organizationId body) lines trx2 of
                 Inl error \<Rightarrow> (error_middleware development error, d)
               | Inr trx3 \<Rightarrow>
                   (Success 201
                      \<lparr>pd_entry = first_row [e. e \<leftarrow> journal_entries trx3, je_id e = journalEntryId],
                       pd_lines = created_lines trx3 journalEntryId,
                       pd_totalDebit = td, pd_totalCredit = tc\<rparr>,
                    trx3)))"

text \<open>
  The change a line makes to a balance, \<open>delta\<close>: the \<open>balanceChange\<close> of the line under
  the normal balance of the type of the line's account, and the sum of these over the
  lines of an entry that reference one account.
\<close>

definition line_delta :: "database \<Rightarrow> entry_line \<Rightarrow> rat" where
  "line_delta d line =
     (case account_with_type d (l_accountId line) of
        None \<Rightarrow> 0
      | Some (a, t) \<Rightarrow>
          balanceChange (at_normal_balance t) (l_debitAmount line) (l_creditAmount line))"

definition account_delta :: "database \<Rightarrow> entry_line list \<Rightarrow> int \<Rightarrow> rat" where
  "account_delta d lines accountId =
     sum_list (map (line_delta d) (filter (\<lambda>line. l_accountId line = accountId) lines))"

definition apply_deltas ::
  "database \<Rightarrow> int \<Rightarrow> entry_line list \<Rightarrow> account_balance_row \<Rightarrow> account_balance_row" where
  "apply_deltas d organizationId lines b =
     (if ab_organization_id b = organizationId
      then b\<lparr>ab_balance := ab_balance b + account_delta d lines (ab_account_id b)\<rparr>
      else b)"

text \<open>The store inside the transaction once the entry and its lines are inserted.\<close>

definition with_entry_and_lines :: "entry_body \<Rightarrow> database \<Rightarrow> database" where
  "with_entry_and_lines body d =
     insert_journal_entry_lines (fst (insert_journal_entry body d)) (b_lines body)
       (snd (insert_journal_entry body d))"

definition is_success :: "'a response \<Rightarrow> bool" where
  "is_success r = (case r of Success status data \<Rightarrow> True | Failure status code det \<Rightarrow> False)"

section \<open>Ledger view\<close>

text \<open>
  \<open>GET /general-ledger/accounts/:accountId/organization/:organizationId\<close>. The path
  parameters reach the store only inside where-clauses, so they are the integers the
  store compares them as; \<open>startDate\<close> and \<open>endDate\<close> are absent (\<open>None\<close>) or a date;
  \<open>page\<close> and \<open>limit\<close> are the numbers the handler computes with.
\<close>

record account_info =
  ai_id :: int
  ai_code :: string
  ai_name :: string
  ai_accountTypeName :: string
  ai_normalBalance :: string

record ledger_transaction =
  lt_journalEntryId :: int
  lt_date :: int
  lt_reference :: string
  lt_journalDescription :: "string option"
  lt_lineDescription :: "string option"
  lt_debitAmount :: rat
  lt_creditAmount :: rat
  lt_balance :: "rat option"

record pagination =
  pg_total :: nat
  pg_page :: nat
  pg_limit :: nat
  pg_pages :: "nat option"

record ledger_data =
  ld_account :: account_info
  ld_transactions :: "ledger_transaction list"
  ld_pagination :: pagination

definition lines_join_entries ::
  "database \<Rightarrow> (journal_entry_line_row \<times> journal_entry_row) list" where
  "lines_join_entries d =
     [(l, e). l \<leftarrow> journal_entry_lines d, e \<leftarrow> journal_entries d,
              jl_journal_entry_id l = je_id e]"

text \<open>The where-clause the three ledger queries share.\<close>

definition posted_lines_of ::
  "database \<Rightarrow> int \<Rightarrow> int \<Rightarrow> (journal_entry_line_row \<times> journal_entry_row) list" where
  "posted_lines_of d accountId orgId =
     filter (\<lambda>(l, e). jl_account_id l = accountId \<and> je_organization_id e = orgId
                       \<and> je_status e = ''posted'')
       (lines_join_entries d)"

definition date_filters ::
  "int option \<Rightarrow> int option \<Rightarrow> (journal_entry_line_row \<times> journal_entry_row) list
     \<Rightarrow> (journal_entry_line_row \<times> journal_entry_row) list" where
  "date_filters startDate endDate rows =
     filter (\<lambda>(l, e). (case startDate of None \<Rightarrow> True | Some s \<Rightarrow> s \<le> je_date e)
                     \<and> (case endDate of None \<Rightarrow> True | Some u \<Rightarrow> je_date e \<le> u))
       rows"

text \<open>
  \<open>orderBy('journal_entries.date', 'desc').orderBy('journal_entries.id', 'desc')\<close>:
  an insertion sort, newest first; rows of one entry keep their table order.
\<close>

definition newer_or_same ::
  "journal_entry_line_row \<times> journal_entry_row \<Rightarrow> journal_entry_line_row \<times> journal_entry_row \<Rightarrow> bool" where
  "newer_or_same r s =
     (je_date (snd s) < je_date (snd r)
      \<or> (je_date (snd r) = je_date (snd s) \<and> je_id (snd s) \<le> je_id (snd r)))"

fun insert_desc ::
  "journal_entry_line_row \<times> journal_entry_row
     \<Rightarrow> (journal_entry_line_row \<times> journal_entry_row) list
     \<Rightarrow> (journal_entry_line_row \<times> journal_entry_row) list" where
  "insert_desc r [] = [r]"
| "insert_desc r (s # rows) =
     (if newer_or_same r s then r # s # rows else s # insert_desc r rows)"

definition order_desc ::
  "(journal_entry_line_row \<times> journal_entry_row) list
     \<Rightarrow> (journal_entry_line_row \<times> journal_entry_row) list" where
  "order_desc rows = foldr insert_desc rows []"

definition select_transaction ::
  "journal_entry_line_row \<times> journal_entry_row \<Rightarrow> ledger_transaction" where
  "select_transaction r =
     (case r of (l, e) \<Rightarrow>
        \<lparr>lt_journalEntryId = je_id e, lt_date = je_date e, lt_reference = je_reference e,
         lt_journalDescription = je_description e, lt_lineDescription = jl_description l,
         lt_debitAmount = jl_debit_amount l, lt_creditAmount = jl_credit_amount l,
         lt_balance = None\<rparr>)"

text \<open>
  The page query: the filtered rows, newest first, \<open>limit\<close> of them from offset
  \<open>(page - 1) * limit\<close>.
\<close>

definition ledger_page ::
  "database \<Rightarrow> int \<Rightarrow> int \<Rightarrow> int option \<Rightarrow> int option \<Rightarrow> nat \<Rightarrow> nat
     \<Rightarrow> (journal_entry_line_row \<times> journal_entry_row) list" where
  "ledger_page d accountId orgId startDate endDate page limit =
     take limit (drop ((page - 1) * limit)
       (order_desc (date_filters startDate endDate (posted_lines_of d accountId orgId))))"

text \<open>
  The rows the handler sums into the starting balance when \<open>page > 1\<close> or a
  \<open>startDate\<close> is given: with a \<open>startDate\<close>, the rows dated before it; without one, the
  rows of the descending order from the page's offset on.
\<close>

definition previousTransactions ::
  "database \<Rightarrow> int \<Rightarrow> int \<Rightarrow> int option \<Rightarrow> nat \<Rightarrow> nat
     \<Rightarrow> (journal_entry_line_row \<times> journal_entry_row) list" where
  "previousTransactions d accountId orgId startDate page limit =
     (case startDate of
        Some s \<Rightarrow> filter (\<lambda>(l, e). je_date e < s) (posted_lines_of d accountId orgId)
      | None \<Rightarrow> drop ((page - 1) * limit) (order_desc (posted_lines_of d accountId orgId)))"

text \<open>The \<open>for\<close> loop over the previous rows.\<close>

fun previous_balance ::
  "string \<Rightarrow> rat \<Rightarrow> (journal_entry_line_row \<times> journal_entry_row) list \<Rightarrow> rat" where
  "previous_balance normalBalance runningBalance [] = runningBalance"
| "previous_balance normalBalance runningBalance (r # rows) =
     previous_balance normalBalance
       (runningBalance
          + balanceChange normalBalance (jl_debit_amount (fst r)) (jl_credit_amount (fst r)))
       rows"

text \<open>The \<open>forEach\<close> that writes \<open>balance\<close> into the rows of the page, in query order.\<close>

fun add_running_balance ::
  "string \<Rightarrow> rat \<Rightarrow> ledger_transaction list \<Rightarrow> ledger_transaction list" where
  "add_running_balance normalBalance runningBalance [] = []"
| "add_running_balance normalBalance runningBalance (t # ts) =
     (let rb = runningBalance
                 + balanceChange normalBalance (lt_debitAmount t) (lt_creditAmount t)
      in t\<lparr>lt_balance := Some rb\<rparr> # add_running_balance normalBalance rb ts)"

definition ledger_account :: "database \<Rightarrow> int \<Rightarrow> int \<Rightarrow> account_info option" where
  "ledger_account d accountId orgId =
     first_row
       (map (\<lambda>(a, t). \<lparr>ai_id = a_id a, ai_code = a_code a, ai_name = a_name a,
                        ai_accountTypeName = at_name t, ai_normalBalance = at_normal_balance t\<rparr>)
          (filter (\<lambda>(a, t). a_id a = accountId \<and> a_organization_id a = orgId)
             (accounts_join_types d)))"

text \<open>
  \<open>Math.ceil(count / limit)\<close>; with \<open>limit = 0\<close> the quotient is not a finite number and
  is serialised as \<open>null\<close>.
\<close>

definition pages_of :: "nat \<Rightarrow> nat \<Rightarrow> nat option" where
  "pages_of count limit = (if limit = 0 then None else Some ((count + limit - 1) div limit))"

text \<open>
  The handler. A page 0 with a positive limit gives a negative offset, which the query
  builder refuses with an exception; every other query succeeds.
\<close>

definition get_ledger ::
  "bool \<Rightarrow> database \<Rightarrow> int \<Rightarrow> int \<Rightarrow> int option \<Rightarrow> int option \<Rightarrow> nat \<Rightarrow> nat
     \<Rightarrow> ledger_data response" where
  "get_ledger development d orgId accountId startDate endDate page limit =
     (case ledger_account d accountId orgId of
        None \<Rightarrow> Failure 404 ''ACCOUNT_NOT_FOUND'' NoDetails
      | Some account \<Rightarrow>
          if page = 0 \<and> 0 < limit
          then error_middleware development
                 (new_Error ''A non-negative integer must be provided to offset.'')
          else
            (let rows = date_filters startDate endDate (posted_lines_of d accountId orgId);
                 count = length rows;
                 transactions =
                   map select_transaction
                     (ledger_page d accountId orgId startDate endDate page limit);
                 runningBalance =
                   (if 1 < page \<or> startDate \<noteq> None
                    then previous_balance (ai_normalBalance account) 0
                           (previousTransactions d accountId orgId startDate page limit)
                    else 0)
             in Success 200
                  \<lparr>ld_account = account,
                   ld_transactions =
                     rev (add_running_balance (ai_normalBalance account) runningBalance transactions),
                   ld_pagination =
                     \<lparr>pg_total = count, pg_page = page, pg_limit = limit,
                      pg_pages = pages_of count limit\<rparr>\<rparr>))"

text \<open>
  What a running balance is, for comparison with the handler: the balance of the account
  after a row is the sum of the changes of all its posted rows that are not newer than
  that row, in the order of the ledger.
\<close>

definition historical_balance ::
  "string \<Rightarrow> (journal_entry_line_row \<times> journal_entry_row) list
     \<Rightarrow> journal_entry_line_row \<times> journal_entry_row \<Rightarrow> rat" where
  "historical_balance normalBalance rows r =
     sum_list (map (\<lambda>s. balanceChange normalBalance (jl_debit_amount (fst s)) (jl_credit_amount (fst s)))
                  (filter (\<lambda>s. newer_or_same r s) rows))"

text \<open>
  The running balances of the rows of a page, oldest first, and the balances a response
  reports, each with the id of its journal entry.
\<close>

definition expected_balances ::
  "database \<Rightarrow> int \<Rightarrow> int \<Rightarrow> int option \<Rightarrow> int option \<Rightarrow> nat \<Rightarrow> nat \<Rightarrow> string
     \<Rightarrow> (int \<times> rat) list" where
  "expected_balances d accountId orgId startDate endDate page limit normalBalance =
     map (\<lambda>r. (je_id (snd r),
                historical_balance normalBalance (posted_lines_of d accountId orgId) r))
       (rev (ledger_page d accountId orgId startDate endDate page limit))"

definition reported_balances :: "ledger_data response \<Rightarrow> (int \<times> rat option) list" where
  "reported_balances r =
     (case r of
        Success status data \<Rightarrow>
          map (\<lambda>t. (lt_journalEntryId t, lt_balance t)) (ld_transactions data)
      | Failure status code det \<Rightarrow> [])"

section \<open>Report engine\<close>

text \<open>A left join: the matching rows of the joined table, or one row of nulls.\<close>

definition left_join :: "'a list \<Rightarrow> 'a option list" where
  "left_join matching = (if matching = [] then [None] else map Some matching)"

subsection \<open>Trial balance\<close>

text \<open>
  The query of the trial balance: every account of the organization with its type, its
  category if it has one, and its balance row if there is one. The rows are kept in table
  order (the handler orders them by type, category name and code, which only decides the
  order of the listing); the listing groups the accounts computed here by type and
  category, which adds per-group sums of the same two columns. The balance column is
  read as the number it stores.
\<close>

definition trial_balance_query ::
  "database \<Rightarrow> int
     \<Rightarrow> (account_row \<times> account_type_row \<times> account_category_row option
          \<times> account_balance_row option) list" where
  "trial_balance_query d orgId =
     [(a, t, c, b).
        (a, t) \<leftarrow> accounts_join_types d,
        c \<leftarrow> left_join (filter (\<lambda>c. a_account_category_id a = Some (ac_id c))
                           (account_categories d)),
        b \<leftarrow> left_join (filter (\<lambda>b. ab_account_id b = a_id a
                                    \<and> ab_organization_id b = a_organization_id a)
                           (account_balances d)),
        a_organization_id a = orgId]"

record trial_balance_account =
  tb_id :: int
  tb_code :: string
  tb_name :: string
  tb_accountTypeId :: int
  tb_accountTypeName :: string
  tb_normalBalance :: string
  tb_accountCategoryId :: "int option"
  tb_accountCategoryName :: "string option"
  tb_balance :: rat
  tb_debitBalance :: rat
  tb_creditBalance :: rat

text \<open>
  A selected row, with \<open>account.balance = account.balance || 0\<close> applied and both
  columns initialised to 0.
\<close>

definition select_account ::
  "account_row \<times> account_type_row \<times> account_category_row option \<times> account_balance_row option
     \<Rightarrow> trial_balance_account" where
  "select_account r =
     (case r of (a, t, c, b) \<Rightarrow>
        \<lparr>tb_id = a_id a, tb_code = a_code a, tb_name = a_name a,
         tb_accountTypeId = at_id t, tb_accountTypeName = at_name t,
         tb_normalBalance = at_normal_balance t,
         tb_accountCategoryId = map_option ac_id c,
         tb_accountCategoryName = map_option ac_name c,
         tb_balance = (case b of None \<Rightarrow> 0 | Some row \<Rightarrow> ab_balance row),
         tb_debitBalance = 0, tb_creditBalance = 0\<rparr>)"

text \<open>
  The \<open>forEach\<close> over the accounts: the four branches set one column and add to one
  grand total.
\<close>

fun classify_accounts ::
  "trial_balance_account list \<Rightarrow> rat \<Rightarrow> rat \<Rightarrow> trial_balance_account list \<times> rat \<times> rat" where
  "classify_accounts [] totalDebits totalCredits = ([], totalDebits, totalCredits)"
| "classify_accounts (account # rest) totalDebits totalCredits =
     (if tb_normalBalance account = ''debit''
      then if 0 \<le> tb_balance account
           then (case classify_accounts rest (totalDebits + tb_balance account) totalCredits of
                   (accs, td, tc) \<Rightarrow>
                     (account\<lparr>tb_debitBalance := tb_balance account\<rparr> # accs, td, tc))
           else (case classify_accounts rest totalDebits (totalCredits + \<bar>tb_balance account\<bar>) of
                   (accs, td, tc) \<Rightarrow>
                     (account\<lparr>tb_creditBalance := \<bar>tb_balance account\<bar>\<rparr> # accs, td, tc))
      else if 0 \<le> tb_balance account
           then (case classify_accounts rest totalDebits (totalCredits + tb_balance account) of
                   (accs, td, tc) \<Rightarrow>
                     (account\<lparr>tb_creditBalance := tb_balance account\<rparr> # accs, td, tc))
           else (case classify_accounts rest (totalDebits + \<bar>tb_balance account\<bar>) totalCredits of
                   (accs, td, tc) \<Rightarrow>
                     (account\<lparr>tb_debitBalance := \<bar>tb_balance account\<bar>\<rparr> # accs, td, tc)))"

record trial_balance_data =
  tbd_accounts :: "trial_balance_account list"
  tbd_totalDebits :: rat
  tbd_totalCredits :: rat
  tbd_difference :: rat

definition trial_balance :: "database \<Rightarrow> int \<Rightarrow> trial_balance_data response" where
  "trial_balance d orgId =
     (case classify_accounts (map select_account (trial_balance_query d orgId)) 0 0 of
        (accs, totalDebits, totalCredits) \<Rightarrow>
          Success 200
            \<lparr>tbd_accounts = accs, tbd_totalDebits = totalDebits,
             tbd_totalCredits = totalCredits,
             tbd_difference = \<bar>totalDebits - totalCredits\<bar>\<rparr>)"

text \<open>
  The listing of a response: id, normal balance, balance and the two columns of every
  account.
\<close>

definition reported_accounts ::
  "trial_balance_data response \<Rightarrow> (int \<times> string \<times> rat \<times> rat \<times> rat) list" where
  "reported_accounts r =
     (case r of
        Success status data \<Rightarrow>
          map (\<lambda>acc. (tb_id acc, tb_normalBalance acc, tb_balance acc,
                       tb_debitBalance acc, tb_creditBalance acc)) (tbd_accounts data)
      | Failure status code det \<Rightarrow> [])"

subsection \<open>Income statement\<close>

record income_account =
  ia_id :: int
  ia_code :: string
  ia_name :: string
  ia_categoryName :: "string option"
  ia_balance :: rat

text \<open>The accounts of the organization whose type has the given name.\<close>

definition accounts_of_type ::
  "database \<Rightarrow> int \<Rightarrow> string
     \<Rightarrow> (account_row \<times> account_type_row \<times> account_category_row option) list" where
  "accounts_of_type d orgId typeName =
     [(a, t, c).
        (a, t) \<leftarrow> accounts_join_types d,
        c \<leftarrow> left_join (filter (\<lambda>c. a_account_category_id a = Some (ac_id c))
                           (account_categories d)),
        a_organization_id a = orgId \<and> at_name t = typeName]"

text \<open>The posted lines of the period on the given accounts.\<close>

definition period_transactions ::
  "database \<Rightarrow> int \<Rightarrow> int list \<Rightarrow> int \<Rightarrow> int
     \<Rightarrow> (journal_entry_line_row \<times> journal_entry_row) list" where
  "period_transactions d orgId accountIds startDate endDate =
     filter (\<lambda>(l, e). jl_account_id l \<in> set accountIds \<and> je_organization_id e = orgId
                       \<and> je_status e = ''posted''
                       \<and> startDate \<le> je_date e \<and> je_date e \<le> endDate)
       (lines_join_entries d)"

text \<open>
  The two \<open>forEach\<close> passes that fill \<open>revenueByAccount\<close> and \<open>expensesByAccount\<close>; the
  object is a map from account id to the running sum, and \<open>amount\<close> is the signed
  amount of a line.
\<close>

fun sum_by_account ::
  "(journal_entry_line_row \<Rightarrow> rat) \<Rightarrow> (journal_entry_line_row \<times> journal_entry_row) list
     \<Rightarrow> (int \<rightharpoonup> rat) \<Rightarrow> (int \<rightharpoonup> rat)" where
  "sum_by_account amount [] byAccount = byAccount"
| "sum_by_account amount (r # rows) byAccount =
     sum_by_account amount rows
       (byAccount(jl_account_id (fst r) \<mapsto>
          (case byAccount (jl_account_id (fst r)) of None \<Rightarrow> 0 | Some v \<Rightarrow> v)
            + amount (fst r)))"

definition revenue_amount :: "journal_entry_line_row \<Rightarrow> rat" where
  "revenue_amount l = jl_credit_amount l - jl_debit_amount l"

definition expense_amount :: "journal_entry_line_row \<Rightarrow> rat" where
  "expense_amount l = jl_debit_amount l - jl_credit_amount l"

text \<open>\<open>account.balance = byAccount[account.id] || 0\<close> for every account of the list.\<close>

definition add_balances ::
  "(int \<rightharpoonup> rat) \<Rightarrow> (account_row \<times> account_type_row \<times> account_category_row option) list
     \<Rightarrow> income_account list" where
  "add_balances byAccount rows =
     map (\<lambda>(a, t, c).
            \<lparr>ia_id = a_id a, ia_code = a_code a, ia_name = a_name a,
             ia_categoryName = map_option ac_name c,
             ia_balance = (case byAccount (a_id a) of None \<Rightarrow> 0 | Some v \<Rightarrow> v)\<rparr>)
         rows"

text \<open>One side of the statement: the accounts with their balances, and their total.\<close>

definition statement_side ::
  "database \<Rightarrow> int \<Rightarrow> string \<Rightarrow> (journal_entry_line_row \<Rightarrow> rat) \<Rightarrow> int \<Rightarrow> int
     \<Rightarrow> income_account list \<times> rat" where
  "statement_side d orgId typeName amount startDate endDate =
     (let rows = accounts_of_type d orgId typeName;
          accountIds = map (\<lambda>(a, t, c). a_id a) rows;
          byAccount =
            sum_by_account amount (period_transactions d orgId accountIds startDate endDate)
              Map.empty;
          accs = add_balances byAccount rows
      in (accs, foldl (\<lambda>total account. total + ia_balance account) 0 accs))"

record income_statement_data =
  isd_revenueAccounts :: "income_account list"
  isd_totalRevenue :: rat
  isd_expenseAccounts :: "income_account list"
  isd_totalExpenses :: rat
  isd_netIncome :: rat

definition income_statement ::
  "database \<Rightarrow> int \<Rightarrow> int option \<Rightarrow> int option \<Rightarrow> income_statement_data response" where
  "income_statement d orgId startDate endDate =
     (case (startDate, endDate) of
        (Some s, Some u) \<Rightarrow>
          (case (statement_side d orgId ''Revenue'' revenue_amount s u,
                 statement_side d orgId ''Expense'' expense_amount s u) of
             ((revenueAccounts, totalRevenue), (expenseAccounts, totalExpenses)) \<Rightarrow>
               Success 200
                 \<lparr>isd_revenueAccounts = revenueAccounts, isd_totalRevenue = totalRevenue,
                  isd_expenseAccounts = expenseAccounts, isd_totalExpenses = totalExpenses,
                  isd_netIncome = totalRevenue - totalExpenses\<rparr>)
      | _ \<Rightarrow> Failure 400 ''MISSING_DATE_PARAMETERS'' NoDetails)"

text \<open>
  What the statement reports for one account, for comparison: the sum of the signed
  amounts of its posted lines of the organization dated within the period.
\<close>

definition period_total ::
  "database \<Rightarrow> int \<Rightarrow> (journal_entry_line_row \<Rightarrow> rat) \<Rightarrow> int \<Rightarrow> int \<Rightarrow> int \<Rightarrow> rat" where
  "period_total d orgId amount startDate endDate accountId =
     sum_list (map (\<lambda>(l, e). amount l)
       (filter (\<lambda>(l, e). jl_account_id l = accountId \<and> je_organization_id e = orgId
                         \<and> je_status e = ''posted''
                         \<and> startDate \<le> je_date e \<and> je_date e \<le> endDate)
          (lines_join_entries d)))"

text \<open>
  The total of a revenue account as the specification words it, for comparison: the sum
  of \<open>creditAmount - debitAmount\<close> over all posted lines of the account dated within the
  period, whichever organization the entry of a line belongs to.
\<close>

definition spec_revenue_total :: "database \<Rightarrow> int \<Rightarrow> int \<Rightarrow> int \<Rightarrow> rat" where
  "spec_revenue_total d startDate endDate accountId =
     sum_list (map (\<lambda>(l, e). jl_credit_amount l - jl_debit_amount l)
       (filter (\<lambda>(l, e). jl_account_id l = accountId \<and> je_status e = ''posted''
                         \<and> startDate \<le> je_date e \<and> je_date e \<le> endDate)
          [(l, e). l \<leftarrow> journal_entry_lines d, e \<leftarrow> journal_entries d,
                   jl_journal_entry_id l = je_id e]))"

text \<open>The ids and totals of the revenue accounts of a response.\<close>

definition reported_revenue :: "income_statement_data response \<Rightarrow> (int \<times> rat) list" where
  "reported_revenue r =
     (case r of
        Success status data \<Rightarrow> map (\<lambda>acc. (ia_id acc, ia_balance acc)) (isd_revenueAccounts data)
      | Failure status code det \<Rightarrow> [])"

section \<open>Account registry: updating an account\<close>

text \<open>
  \<open>PUT /accounts/:accountId/organization/:organizationId\<close>. Here the handler itself
  compares a path parameter, which is a string, with a field of the JSON body, so the
  values keep their JavaScript types: \<open>===\<close> holds only between values of one type.
\<close>

datatype js_value =
  JSUndefined
  | JSNull
  | JSNumber int
  | JSString string

fun strict_equals :: "js_value \<Rightarrow> js_value \<Rightarrow> bool" where
  "strict_equals JSUndefined JSUndefined = True"
| "strict_equals JSNull JSNull = True"
| "strict_equals (JSNumber m) (JSNumber n) = (m = n)"
| "strict_equals (JSString s) (JSString t) = (s = t)"
| "strict_equals v w = False"

text \<open>
  A field of the body that the schema lets be absent, \<open>null\<close> or a value. The bank
  account details are an object, kept as the text \<open>JSON.stringify\<close> gives for it.
\<close>

datatype 'a body_field =
  Undefined
  | Null
  | Value 'a

record update_body =
  u_code :: "string option"
  u_name :: "string option"
  u_description :: "string body_field"
  u_accountTypeId :: "int option"
  u_accountCategoryId :: "int option"
  u_parentAccountId :: js_value
  u_isActive :: "bool option"
  u_isBankAccount :: "bool option"
  u_bankAccountDetails :: "string body_field"

text \<open>
  The store compares an integer column with a bound parameter by reading the parameter
  as an integer; text that is no integer is refused with an exception.
\<close>

definition digit_of :: "char \<Rightarrow> nat option" where
  "digit_of c = map_of (zip ''0123456789'' [0, 1, 2, 3, 4, 5, 6, 7, 8, 9]) c"

fun parse_digits :: "string \<Rightarrow> nat \<Rightarrow> nat option" where
  "parse_digits [] acc = Some acc"
| "parse_digits (c # cs) acc =
     (case digit_of c of None \<Rightarrow> None | Some v \<Rightarrow> parse_digits cs (10 * acc + v))"

definition sql_integer :: "string \<Rightarrow> int option" where
  "sql_integer s =
     (case s of
        [] \<Rightarrow> None
      | c # cs \<Rightarrow>
          if c = CHR ''-''
          then (if cs = [] then None else map_option (\<lambda>n. - int n) (parse_digits cs 0))
          else map_option int (parse_digits s 0))"

definition sql_parameter :: "js_value \<Rightarrow> int option" where
  "sql_parameter v =
     (case v of JSNumber n \<Rightarrow> Some n | JSString s \<Rightarrow> sql_integer s | _ \<Rightarrow> None)"

definition invalid_integer :: js_error where
  "invalid_integer = new_Error ''invalid input syntax for type integer''"

text \<open>The merge of \<open>updateData\<close> into a row: only supplied fields change.\<close>

definition apply_update :: "nat \<Rightarrow> update_body \<Rightarrow> account_row \<Rightarrow> account_row" where
  "apply_update now body a =
     a\<lparr>a_code := (case u_code body of None \<Rightarrow> a_code a | Some c \<Rightarrow> c),
       a_name := (case u_name body of None \<Rightarrow> a_name a | Some n \<Rightarrow> n),
       a_description :=
         (case u_description body of
            Undefined \<Rightarrow> a_description a | Null \<Rightarrow> None | Value t \<Rightarrow> Some t),
       a_account_type_id :=
         (case u_accountTypeId body of None \<Rightarrow> a_account_type_id a | Some t \<Rightarrow> t),
       a_account_category_id :=
         (case u_accountCategoryId body of
            None \<Rightarrow> a_account_category_id a | Some c \<Rightarrow> Some c),
       a_parent_account_id :=
         (case u_parentAccountId body of
            JSUndefined \<Rightarrow> a_parent_account_id a | v \<Rightarrow> sql_parameter v),
       a_is_active := (case u_isActive body of None \<Rightarrow> a_is_active a | Some f \<Rightarrow> f),
       a_is_bank_account :=
         (case u_isBankAccount body of None \<Rightarrow> a_is_bank_account a | Some f \<Rightarrow> f),
       a_bank_account_details :=
         (case u_bankAccountDetails body of
            Undefined \<Rightarrow> a_bank_account_details a | Null \<Rightarrow> None | Value j \<Rightarrow> Some j),
       a_updated_at := now\<rparr>"

text \<open>The account read back for the response: the first row of the join, by id.\<close>

definition joined_account ::
  "database \<Rightarrow> int \<Rightarrow> (account_row \<times> account_type_row \<times> account_category_row option) option" where
  "joined_account d accountId =
     first_row
       [(a, t, c).
          (a, t) \<leftarrow> accounts_join_types d,
          c \<leftarrow> left_join (filter (\<lambda>c. a_account_category_id a = Some (ac_id c))
                             (account_categories d)),
          a_id a = accountId]"

text \<open>
  The parent check of the handler: with a \<open>parentAccountId\<close> in the body, first the
  comparison \<open>parentAccountId === accountId\<close> with the path parameter, then, unless it is
  \<open>null\<close>, the lookup of the parent in the organization. \<open>None\<close> is a passed check.
\<close>

definition parent_check ::
  "bool \<Rightarrow> database \<Rightarrow> string \<Rightarrow> int \<Rightarrow> js_value
     \<Rightarrow> (account_row \<times> account_type_row \<times> account_category_row option) response option" where
  "parent_check development d accountId orgId parentAccountId =
     (if parentAccountId \<noteq> JSUndefined
      then if strict_equals parentAccountId (JSString accountId)
           then Some (Failure 400 ''INVALID_PARENT_ACCOUNT'' NoDetails)
           else if parentAccountId \<noteq> JSNull
           then (case sql_parameter parentAccountId of
                   None \<Rightarrow> Some (error_middleware development invalid_integer)
                 | Some parentId \<Rightarrow>
                     (case first_row (filter (\<lambda>a. a_id a = parentId \<and> a_organization_id a = orgId)
                                        (accounts d)) of
                        None \<Rightarrow> Some (Failure 400 ''INVALID_PARENT_ACCOUNT'' NoDetails)
                      | Some parentAccount \<Rightarrow> None))
           else None
      else None)"

definition update_account ::
  "bool \<Rightarrow> nat \<Rightarrow> string \<Rightarrow> string \<Rightarrow> update_body \<Rightarrow> database
     \<Rightarrow> (account_row \<times> account_type_row \<times> account_category_row option) response \<times> database" where
  "update_account development now accountId organizationId body d =
     (case (sql_integer accountId, sql_integer organizationId) of
        (Some aid, Some orgId) \<Rightarrow>
          (case first_row (filter (\<lambda>a. a_id a = aid \<and> a_organization_id a = orgId) (accounts d)) of
             None \<Rightarrow> (Failure 404 ''ACCOUNT_NOT_FOUND'' NoDetails, d)
           | Some existingAccount \<Rightarrow>
               if (case u_code body of
                     None \<Rightarrow> False
                   | Some code \<Rightarrow>
                       code \<noteq> [] \<and> code \<noteq> a_code existingAccount
                       \<and> filter (\<lambda>a. a_organization_id a = orgId \<and> a_code a = code
                                       \<and> a_id a \<noteq> aid) (accounts d) \<noteq> [])
               then (Failure 400 ''DUPLICATE_ACCOUNT_CODE'' NoDetails, d)
               else if (case u_accountTypeId body of
                          None \<Rightarrow> False
                        | Some accountTypeId \<Rightarrow>
                            accountTypeId \<noteq> 0
                            \<and> filter (\<lambda>t. at_id t = accountTypeId) (account_types d) = [])
               then (Failure 400 ''INVALID_ACCOUNT_TYPE'' NoDetails, d)
               else if (case u_accountCategoryId body of
                          None \<Rightarrow> False
                        | Some accountCategoryId \<Rightarrow>
                            accountCategoryId \<noteq> 0
                            \<and> filter (\<lambda>c. ac_id c = accountCategoryId
                                            \<and> ac_organization_id c = orgId)
                                  (account_categories d) = [])
               then (Failure 400 ''INVALID_ACCOUNT_CATEGORY'' NoDetails, d)
               else
                 (case parent_check development d accountId orgId (u_parentAccountId body) of
                    Some failure \<Rightarrow> (failure, d)
                  | None \<Rightarrow>
                      (let d' = d\<lparr>accounts :=
                                   map (\<lambda>a. if a_id a = aid then apply_update now body a else a)
                                     (accounts d)\<rparr>
                       in case joined_account d' aid of
                            None \<Rightarrow>
                              (error_middleware development
                                 (\<lparr>e_name = ''TypeError'', e_code = None,
                                   e_message = ''Cannot read properties of undefined''\<rparr>), d')
                          | Some account \<Rightarrow> (Success 200 account, d'))))
      | _ \<Rightarrow> (error_middleware development invalid_integer, d))"

section \<open>Example data\<close>

text \<open>
  Two organizations. Organization 1 has a cash account (a debit-normal asset), a sales
  account (credit-normal revenue) and a rent account (a debit-normal expense) that has
  no balance row; organization 2 has a cash account of its own, with id 7.
\<close>

definition mk_account :: "int \<Rightarrow> int \<Rightarrow> string \<Rightarrow> string \<Rightarrow> int \<Rightarrow> int option \<Rightarrow> account_row" where
  "mk_account accountId orgId code name typeId categoryId =
     \<lparr>a_id = accountId, a_organization_id = orgId, a_code = code, a_name = name,
      a_description = None, a_account_type_id = typeId, a_account_category_id = categoryId,
      a_parent_account_id = None, a_is_active = True, a_is_bank_account = False,
      a_bank_account_details = None, a_updated_at = 0\<rparr>"

definition example_db :: database where
  "example_db =
     \<lparr>accounts =
        [mk_account 1 1 ''1000'' ''Cash'' 1 (Some 1),
         mk_account 2 1 ''4000'' ''Sales'' 4 (Some 2),
         mk_account 3 1 ''5000'' ''Rent'' 5 None,
         mk_account 7 2 ''1000'' ''Cash'' 1 None],
      account_types =
        [\<lparr>at_id = 1, at_name = ''Asset'', at_normal_balance = ''debit''\<rparr>,
         \<lparr>at_id = 4, at_name = ''Revenue'', at_normal_balance = ''credit''\<rparr>,
         \<lparr>at_id = 5, at_name = ''Expense'', at_normal_balance = ''debit''\<rparr>],
      account_categories =
        [\<lparr>ac_id = 1, ac_organization_id = 1, ac_name = ''Current Assets'',
          ac_account_type_id = 1\<rparr>,
         \<lparr>ac_id = 2, ac_organization_id = 1, ac_name = ''Operating Revenue'',
          ac_account_type_id = 4\<rparr>],
      account_balances =
        [\<lparr>ab_account_id = 1, ab_organization_id = 1, ab_balance = 500\<rparr>,
         \<lparr>ab_account_id = 2, ab_organization_id = 1, ab_balance = 500\<rparr>,
         \<lparr>ab_account_id = 7, ab_organization_id = 2, ab_balance = 40\<rparr>],
      journal_entries = [],
      journal_entry_lines = []\<rparr>"

definition mk_line :: "int \<Rightarrow> rat \<Rightarrow> rat \<Rightarrow> entry_line" where
  "mk_line accountId debit credit =
     \<lparr>l_accountId = accountId, l_description = None, l_debitAmount = debit,
      l_creditAmount = credit, l_taxRate = None, l_taxAmount = None\<rparr>"

definition mk_body :: "int \<Rightarrow> int \<Rightarrow> entry_line list \<Rightarrow> entry_body" where
  "mk_body organizationId day lines =
     \<lparr>b_organizationId = organizationId, b_date = day, b_reference = ''JE'',
      b_description = None, b_lines = lines\<rparr>"

text \<open>The store after two postings on days 10 and 20, and after a third on day 30.\<close>

definition ledger_db :: database where
  "ledger_db =
     snd (post_journal_entry False (mk_body 1 20 [mk_line 1 50 0, mk_line 2 0 50])
       (snd (post_journal_entry False (mk_body 1 10 [mk_line 1 100 0, mk_line 2 0 100])
          example_db)))"

definition ledger_db3 :: database where
  "ledger_db3 =
     snd (post_journal_entry False (mk_body 1 30 [mk_line 3 30 0, mk_line 1 0 30]) ledger_db)"

text \<open>
  A store for the income statement: organization 1 posts on day 10 a sale of 100, on
  day 20 an entry with debits and credits on both its sales and its rent account, and on
  day 30 another rent payment against sales; then organization 2 posts on day 15 an entry
  whose credit line is on the sales account of organization 1.
\<close>

definition income_db :: database where
  "income_db =
     snd (post_journal_entry False (mk_body 1 30 [mk_line 3 30 0, mk_line 2 0 30])
       (snd (post_journal_entry False (mk_body 1 20 [mk_line 2 30 80, mk_line 3 70 20])
          (snd (post_journal_entry False (mk_body 1 10 [mk_line 1 100 0, mk_line 2 0 100])
             example_db)))))"

definition income_db2 :: database where
  "income_db2 =
     snd (post_journal_entry False (mk_body 2 15 [mk_line 7 40 0, mk_line 2 0 40]) income_db)"

text \<open>The example store with the cash account of organization 1 overdrawn.\<close>

definition overdrawn_db :: database where
  "overdrawn_db =
     example_db\<lparr>account_balances :=
       [\<lparr>ab_account_id = 1, ab_organization_id = 1, ab_balance = - 20\<rparr>,
        \<lparr>ab_account_id = 2, ab_organization_id = 1, ab_balance = 500\<rparr>]\<rparr>"

definition no_update :: update_body where
  "no_update =
     \<lparr>u_code = None, u_name = None, u_description = Undefined, u_accountTypeId = None,
      u_accountCategoryId = None, u_parentAccountId = JSUndefined, u_isActive = None,
      u_isBankAccount = None, u_bankAccountDetails = Undefined\<rparr>"

section \<open>Properties of posting\<close>


lemma account_with_type_cong:
  "accounts d' = accounts d \<Longrightarrow> account_types d' = account_types d \<Longrightarrow>
   account_with_type d' = account_with_type d"
  by (rule ext) (simp add: account_with_type_def accounts_join_types_def)

lemma account_with_type_increment [simp]:
  "account_with_type (increment_balance x org c trx) = account_with_type trx"
  by (rule account_with_type_cong) (simp_all add: increment_balance_def)

lemma with_entry_and_lines_simps [simp]:
  "accounts (with_entry_and_lines body d) = accounts d"
  "account_types (with_entry_and_lines body d) = account_types d"
  "account_categories (with_entry_and_lines body d) = account_categories d"
  "account_balances (with_entry_and_lines body d) = account_balances d"
  by (simp_all add: with_entry_and_lines_def insert_journal_entry_def
        insert_journal_entry_lines_def Let_def)

lemma account_with_type_inserted [simp]:
  "account_with_type (with_entry_and_lines body d) = account_with_type d"
  by (rule account_with_type_cong) simp_all

lemma first_row_None [simp]: "first_row rows = None \<longleftrightarrow> rows = []"
  by (cases rows) (simp_all add: first_row_def)

lemma set_accounts_join_types:
  "set (accounts_join_types d) =
     {(a, t). a \<in> set (accounts d) \<and> t \<in> set (account_types d) \<and> a_account_type_id a = at_id t}"
  by (auto simp: accounts_join_types_def)

lemma account_with_type_missing:
  "x \<notin> a_id ` set (accounts d) \<Longrightarrow> account_with_type d x = None"
  by (auto simp: account_with_type_def filter_empty_conv set_accounts_join_types)

lemma update_balances_fails_iff:
  "(\<exists>e. update_balances org ls trx = Inl e) \<longleftrightarrow>
   (\<exists>l \<in> set ls. account_with_type trx (l_accountId l) = None)"
proof (induction ls arbitrary: trx)
  case Nil
  show ?case by simp
next
  case (Cons l ls)
  show ?case
  proof (cases "account_with_type trx (l_accountId l)")
    case None
    then show ?thesis by simp
  next
    case (Some p)
    obtain a t where p: "p = (a, t)" by (cases p)
    from Some p Cons.IH [of "increment_balance (l_accountId l) org
        (balanceChange (at_normal_balance t) (l_debitAmount l) (l_creditAmount l)) trx"]
    show ?thesis by simp
  qed
qed

lemma increment_then_deltas:
  "account_with_type trx (l_accountId l) = Some (a, t) \<Longrightarrow>
   map (apply_deltas trx org ls)
     (account_balances (increment_balance (l_accountId l) org
        (balanceChange (at_normal_balance t) (l_debitAmount l) (l_creditAmount l)) trx))
   = map (apply_deltas trx org (l # ls)) (account_balances trx)"
  by (auto simp: increment_balance_def apply_deltas_def account_delta_def line_delta_def)

lemma apply_deltas_cong:
  "account_with_type d' = account_with_type d \<Longrightarrow> apply_deltas d' = apply_deltas d"
proof -
  assume eq: "account_with_type d' = account_with_type d"
  have "line_delta d' = line_delta d"
    by (rule ext) (simp add: line_delta_def eq)
  then show ?thesis
    by (intro ext) (simp add: apply_deltas_def account_delta_def)
qed

lemma update_balances_result:
  "update_balances org ls trx = Inr trx' \<Longrightarrow>
   trx' = trx\<lparr>account_balances := map (apply_deltas trx org ls) (account_balances trx)\<rparr>"
proof (induction ls arbitrary: trx)
  case Nil
  then show ?case
    by (simp add: apply_deltas_def account_delta_def map_idI)
next
  case (Cons l ls)
  from Cons.prems obtain a t where at: "account_with_type trx (l_accountId l) = Some (a, t)"
    by (cases "account_with_type trx (l_accountId l)") auto
  define trx1 where "trx1 = increment_balance (l_accountId l) org
        (balanceChange (at_normal_balance t) (l_debitAmount l) (l_creditAmount l)) trx"
  from Cons.prems at have "update_balances org ls trx1 = Inr trx'"
    by (simp add: trx1_def)
  then have "trx' = trx1\<lparr>account_balances := map (apply_deltas trx1 org ls) (account_balances trx1)\<rparr>"
    by (rule Cons.IH)
  moreover have "apply_deltas trx1 = apply_deltas trx"
    by (rule apply_deltas_cong) (simp add: trx1_def)
  moreover have "map (apply_deltas trx org ls) (account_balances trx1)
      = map (apply_deltas trx org (l # ls)) (account_balances trx)"
    unfolding trx1_def using at by (rule increment_then_deltas)
  ultimately show ?case
    by (simp add: trx1_def increment_balance_def)
qed



lemma post_journal_entry_unfold:
  "post_journal_entry development body d =
     (if out_of_balance (b_lines body)
      then (Failure 400 ''UNBALANCED_ENTRY''
              (BalanceDetails (totalDebit (b_lines body)) (totalCredit (b_lines body))
                 (js_minus (totalDebit (b_lines body)) (totalCredit (b_lines body)))), d)
      else case update_balances (b_organizationId body) (b_lines body) (with_entry_and_lines body d) of
             Inl error \<Rightarrow> (error_middleware development error, d)
           | Inr trx3 \<Rightarrow>
               (Success 201
                  \<lparr>pd_entry = first_row [e. e \<leftarrow> journal_entries trx3,
                                          je_id e = fst (insert_journal_entry body d)],
                   pd_lines = created_lines trx3 (fst (insert_journal_entry body d)),
                   pd_totalDebit = totalDebit (b_lines body),
                   pd_totalCredit = totalCredit (b_lines body)\<rparr>,
                trx3))"
  by (cases "insert_journal_entry body d")
     (simp add: post_journal_entry_def with_entry_and_lines_def Let_def split: sum.splits)



lemma error_middleware_not_success [simp]:
  "error_middleware development err \<noteq> Success status data"
  by (simp add: error_middleware_def)

lemma update_balances_Inr_iff:
  "(\<exists>trx'. update_balances org ls trx = Inr trx') \<longleftrightarrow>
   (\<forall>l \<in> set ls. account_with_type trx (l_accountId l) \<noteq> None)"
proof -
  have "(\<exists>trx'. update_balances org ls trx = Inr trx') \<longleftrightarrow>
        \<not> (\<exists>e. update_balances org ls trx = Inl e)"
    by (cases "update_balances org ls trx") simp_all
  then show ?thesis
    by (simp add: update_balances_fails_iff)
qed

lemma post_success_accounts:
  assumes "post_journal_entry development body d = (Success status data, d')"
  shows "\<not> out_of_balance (b_lines body)"
    and "\<forall>l \<in> set (b_lines body). account_with_type d (l_accountId l) \<noteq> None"
proof -
  from assms show bal: "\<not> out_of_balance (b_lines body)"
    by (simp add: post_journal_entry_unfold split: if_splits)
  from assms bal have "\<exists>trx'. update_balances (b_organizationId body) (b_lines body)
      (with_entry_and_lines body d) = Inr trx'"
    by (cases "update_balances (b_organizationId body) (b_lines body)
      (with_entry_and_lines body d)") (simp_all add: post_journal_entry_unfold)
  then show "\<forall>l \<in> set (b_lines body). account_with_type d (l_accountId l) \<noteq> None"
    unfolding update_balances_Inr_iff by simp
qed

lemma post_success_state:
  assumes "post_journal_entry development body d = (Success status data, d')"
  shows "d' = (with_entry_and_lines body d)\<lparr>account_balances :=
            map (apply_deltas d (b_organizationId body) (b_lines body)) (account_balances d)\<rparr>"
proof -
  from assms have ub: "update_balances (b_organizationId body) (b_lines body)
      (with_entry_and_lines body d) = Inr d'"
    by (cases "update_balances (b_organizationId body) (b_lines body) (with_entry_and_lines body d)")
       (simp_all add: post_journal_entry_unfold split: if_splits)
  have "apply_deltas (with_entry_and_lines body d) = apply_deltas d"
    by (rule apply_deltas_cong) simp
  then show ?thesis
    using update_balances_result [OF ub] by simp
qed

lemma post_success_exists:
  assumes "\<not> out_of_balance (b_lines body)"
    and "\<forall>l \<in> set (b_lines body). account_with_type d (l_accountId l) \<noteq> None"
  shows "\<exists>data. post_journal_entry development body d =
           (Success 201 data,
            (with_entry_and_lines body d)\<lparr>account_balances :=
               map (apply_deltas d (b_organizationId body) (b_lines body)) (account_balances d)\<rparr>)"
proof -
  from assms(2) have "\<forall>l \<in> set (b_lines body).
      account_with_type (with_entry_and_lines body d) (l_accountId l) \<noteq> None"
    by simp
  then obtain trx' where "update_balances (b_organizationId body) (b_lines body)
      (with_entry_and_lines body d) = Inr trx'"
    using update_balances_Inr_iff [of "b_organizationId body" "b_lines body" "with_entry_and_lines body d"]
    by auto
  with assms(1) obtain data where
    p: "post_journal_entry development body d = (Success 201 data, trx')"
    by (simp add: post_journal_entry_unfold)
  from post_success_state [OF p] p show ?thesis by blast
qed

lemma post_failure_unchanged:
  "post_journal_entry development body d = (Failure status code det, d') \<Longrightarrow> d' = d"
  by (cases "update_balances (b_organizationId body) (b_lines body) (with_entry_and_lines body d)")
     (simp_all add: post_journal_entry_unfold split: if_splits)

lemma number_lines_accounts:
  "map jl_account_id (number_lines j n ls) = map l_accountId ls"
  by (induction ls arbitrary: n) simp_all

lemma number_lines_entry:
  "r \<in> set (number_lines j n ls) \<Longrightarrow> jl_journal_entry_id r = j"
  by (induction ls arbitrary: n) auto

lemma with_entry_and_lines_entry:
  "\<exists>e. journal_entries (with_entry_and_lines body d) = journal_entries d @ [e]
       \<and> je_status e = ''posted'' \<and> je_organization_id e = b_organizationId body
       \<and> (\<exists>ls. journal_entry_lines (with_entry_and_lines body d) = journal_entry_lines d @ ls
                \<and> map jl_account_id ls = map l_accountId (b_lines body)
                \<and> (\<forall>r \<in> set ls. jl_journal_entry_id r = je_id e))"
  by (simp add: with_entry_and_lines_def insert_journal_entry_def insert_journal_entry_lines_def
        Let_def number_lines_accounts number_lines_entry)



text \<open>
  The exception for a missing account reaches the middleware with a message made of the
  fixed words and the digits of the id, so none of the words the middleware looks for
  occurs in it: a posting that passes the balance check and references a missing account
  is answered with status 500 and code \<open>SERVER_ERROR\<close>.
\<close>

lemma starts_with_set: "starts_with s t \<Longrightarrow> set t \<subseteq> set s"
  by (induction s t rule: starts_with.induct) auto

lemma str_includes_set: "str_includes s t \<Longrightarrow> set t \<subseteq> set s"
proof (induction s)
  case Nil
  then show ?case by simp
next
  case (Cons a s)
  then show ?case
    using starts_with_set [of "a # s" t] by auto
qed

lemma digit_char_digit: "digit_char n \<in> set ''0123456789''"
proof -
  have "n mod 10 < length ''0123456789''" by simp
  then show ?thesis
    unfolding digit_char_def by (rule nth_mem)
qed

lemma digits_set: "set (digits n) \<subseteq> set ''0123456789''"
proof (induction n rule: digits.induct)
  case (1 n)
  show ?case
  proof (cases "n < 10")
    case True
    then show ?thesis
      using digit_char_digit [of n] by (simp add: digits.simps [of n])
  next
    case False
    with "1" have "set (digits (n div 10)) \<subseteq> set ''0123456789''" by simp
    with False show ?thesis
      using digit_char_digit [of n] by (simp add: digits.simps [of n])
  qed
qed

lemma show_int_set: "set (show_int i) \<subseteq> set ''-0123456789''"
proof (cases "i < 0")
  case True
  have "set (digits (nat (- i))) \<subseteq> set ''0123456789''" by (rule digits_set)
  also have "\<dots> \<subseteq> set ''-0123456789''" by (simp add: subset_insertI2)
  finally show ?thesis using True by (simp add: show_int_def)
next
  case False
  have "set (digits (nat i)) \<subseteq> set ''0123456789''" by (rule digits_set)
  also have "\<dots> \<subseteq> set ''-0123456789''" by (simp add: subset_insertI2)
  finally show ?thesis using False by (simp add: show_int_def)
qed

lemma not_found_message_letters:
  "CHR ''m'' \<notin> set (not_found_message i)"
  "CHR ''p'' \<notin> set (not_found_message i)"
  "CHR ''e'' \<notin> set (not_found_message i)"
proof -
  have "CHR ''m'' \<notin> set ''-0123456789''" "CHR ''p'' \<notin> set ''-0123456789''"
    "CHR ''e'' \<notin> set ''-0123456789''"
    by simp_all
  then have "CHR ''m'' \<notin> set (show_int i)" "CHR ''p'' \<notin> set (show_int i)"
    "CHR ''e'' \<notin> set (show_int i)"
    using show_int_set [of i] by blast+
  then show "CHR ''m'' \<notin> set (not_found_message i)"
    "CHR ''p'' \<notin> set (not_found_message i)"
    "CHR ''e'' \<notin> set (not_found_message i)"
    by (simp_all add: not_found_message_def)
qed

lemma not_found_is_server_error:
  "error_middleware development (new_Error (not_found_message i))
   = Failure 500 ''SERVER_ERROR''
       (if development then MessageDetails (not_found_message i) else NoDetails)"
proof -
  have m: "CHR ''m'' \<in> set ''timeout''" and p: "CHR ''p'' \<in> set ''pool''"
    and e: "CHR ''e'' \<in> set ''connection''"
    by simp_all
  have "\<not> str_includes (not_found_message i) ''timeout''"
    using str_includes_set [of "not_found_message i" "''timeout''"] m
      not_found_message_letters(1) [of i] by blast
  moreover have "\<not> str_includes (not_found_message i) ''pool''"
    using str_includes_set [of "not_found_message i" "''pool''"] p
      not_found_message_letters(2) [of i] by blast
  moreover have "\<not> str_includes (not_found_message i) ''connection''"
    using str_includes_set [of "not_found_message i" "''connection''"] e
      not_found_message_letters(3) [of i] by blast
  ultimately show ?thesis
    by (simp add: error_middleware_def new_Error_def)
qed

lemma update_balances_error:
  "update_balances org ls trx = Inl e \<Longrightarrow>
   \<exists>i. e = new_Error (not_found_message i)"
proof (induction ls arbitrary: trx)
  case Nil
  then show ?case by simp
next
  case (Cons l ls)
  show ?case
  proof (cases "account_with_type trx (l_accountId l)")
    case None
    with Cons.prems show ?thesis by auto
  next
    case (Some p)
    with Cons.prems Cons.IH show ?thesis
      by (cases p) auto
  qed
qed

lemma missing_account_server_error:
  assumes "\<not> out_of_balance (b_lines body)"
    and "\<exists>l \<in> set (b_lines body). account_with_type d (l_accountId l) = None"
  shows "\<exists>det. post_journal_entry development body d = (Failure 500 ''SERVER_ERROR'' det, d)"
proof -
  from assms(2) obtain e where
    e: "update_balances (b_organizationId body) (b_lines body) (with_entry_and_lines body d) = Inl e"
    using update_balances_fails_iff [of "b_organizationId body" "b_lines body"
        "with_entry_and_lines body d"]
    by auto
  from update_balances_error [OF e] obtain i where
    "e = new_Error (not_found_message i)"
    by blast
  with e assms(1) show ?thesis
    by (simp add: post_journal_entry_unfold not_found_is_server_error)
qed

text \<open>The floor of a quotient of numerals, for computing with \<open>to_double\<close>.\<close>

lemma floor_numeral_fraction:
  "\<lfloor>numeral a / numeral b :: rat\<rfloor> = numeral a div numeral b"
  using floor_divide_of_int_eq [of "numeral a" "numeral b", where ?'a = rat] by simp

lemmas number_defs =
  to_double_def exponent_up.simps exponent_down.simps pow2_def round_half_even_def Let_def
  floor_numeral_fraction js_minus_def

lemmas example_defs =
  example_db_def mk_account_def mk_line_def mk_body_def totalDebit_def totalCredit_def
  out_of_balance_def number_defs

lemmas posting_defs =
  post_journal_entry_def insert_journal_entry_def insert_journal_entry_lines_def fresh_id_def
  account_with_type_def accounts_join_types_def first_row_def increment_balance_def
  balanceChange_def created_lines_def is_success_def



lemma missing_account_rolls_back:
  "\<exists>l \<in> set (b_lines body). l_accountId l \<notin> a_id ` set (accounts d) \<Longrightarrow>
   \<exists>status code det. post_journal_entry development body d = (Failure status code det, d)"
proof -
  assume "\<exists>l \<in> set (b_lines body). l_accountId l \<notin> a_id ` set (accounts d)"
  then have missing: "\<exists>l \<in> set (b_lines body). account_with_type d (l_accountId l) = None"
    using account_with_type_missing by blast
  obtain r d' where p: "post_journal_entry development body d = (r, d')"
    by (cases "post_journal_entry development body d")
  show ?thesis
  proof (cases r)
    case (Success status data)
    with p post_success_accounts(2) [of development body d status data d'] missing
    show ?thesis by blast
  next
    case (Failure status code det)
    with p post_failure_unchanged [of development body d status code det d']
    show ?thesis by blast
  qed
qed

text \<open>
  C2 at a concrete request. A posting of organization 1 passes the balance check and its
  second line references account 99, which no row of \<open>accounts\<close> has. The lookup of the
  balance loop finds nothing, the handler throws, and the transaction is rolled back: the
  store is as it was. The answer is status 500 with code \<open>SERVER_ERROR\<close>, the message of
  the exception being passed on only in development; it is not the 404
  \<open>ACCOUNT_NOT_FOUND\<close> that the ledger view and the account registry give for an account
  that does not exist.
\<close>

theorem missing_account_answer:
  "l_accountId (mk_line 99 0 100) \<notin> a_id ` set (accounts example_db)
   \<and> \<not> out_of_balance [mk_line 1 100 0, mk_line 99 0 100]
   \<and> post_journal_entry False (mk_body 1 10 [mk_line 1 100 0, mk_line 99 0 100]) example_db
       = (Failure 500 ''SERVER_ERROR'' NoDetails, example_db)
   \<and> post_journal_entry True (mk_body 1 10 [mk_line 1 100 0, mk_line 99 0 100]) example_db
       = (Failure 500 ''SERVER_ERROR'' (MessageDetails ''Account with ID 99 not found''), example_db)
   \<and> get_ledger False example_db 1 99 None None 1 50
       = Failure 404 ''ACCOUNT_NOT_FOUND'' NoDetails"
  by (simp add: example_defs posting_defs new_Error_def error_middleware_def
        not_found_message_def show_int_def digits.simps digit_char_def
        get_ledger_def ledger_account_def)

lemma account_with_type_Some:
  "account_with_type d x = Some (a, t) \<Longrightarrow>
   a \<in> set (accounts d) \<and> t \<in> set (account_types d) \<and> a_id a = x
   \<and> a_account_type_id a = at_id t"
proof -
  assume h: "account_with_type d x = Some (a, t)"
  then have "(a, t) \<in> set (filter (\<lambda>(a, t). a_id a = x) (accounts_join_types d))"
    by (cases "filter (\<lambda>(a, t). a_id a = x) (accounts_join_types d)")
       (simp_all add: account_with_type_def first_row_def)
  then show ?thesis
    by (simp add: set_accounts_join_types)
qed

text \<open>
  C3, as the handler has it. After a successful posting every line's account was found:
  the lookup gave a row of \<open>accounts\<close> with the line's account id and the row of
  \<open>account_types\<close> of its type. The balance rows are the old ones, in place, and each row
  of the posting organization has grown by the sum, over the lines of the entry on the
  row's account, of \<open>debitAmount - creditAmount\<close> when the normal balance of that type is
  \<open>'debit'\<close> and of \<open>creditAmount - debitAmount\<close> otherwise. Every row of another
  organization, and every row whose account no line references, is as it was, and no
  row is added: a line whose account has no row of the posting organization changes
  nothing.
\<close>

theorem posting_updates_balances:
  "post_journal_entry development body d = (Success status data, d') \<Longrightarrow>
   (\<forall>l \<in> set (b_lines body).
      \<exists>a t. account_with_type d (l_accountId l) = Some (a, t)
            \<and> a \<in> set (accounts d) \<and> t \<in> set (account_types d)
            \<and> a_id a = l_accountId l \<and> a_account_type_id a = at_id t)
   \<and> account_balances d' =
       map (\<lambda>b. if ab_organization_id b = b_organizationId body
                then b\<lparr>ab_balance := ab_balance b
                       + sum_list
                           (map (\<lambda>l. case account_with_type d (l_accountId l) of
                                        None \<Rightarrow> 0
                                      | Some (a, t) \<Rightarrow>
                                          if at_normal_balance t = ''debit''
                                          then l_debitAmount l - l_creditAmount l
                                          else l_creditAmount l - l_debitAmount l)
                              (filter (\<lambda>l. l_accountId l = ab_account_id b) (b_lines body)))\<rparr>
                else b)
         (account_balances d)
   \<and> length (account_balances d') = length (account_balances d)
   \<and> (\<forall>i < length (account_balances d).
         ab_organization_id (account_balances d ! i) \<noteq> b_organizationId body
         \<or> ab_account_id (account_balances d ! i) \<notin> l_accountId ` set (b_lines body)
         \<longrightarrow> account_balances d' ! i = account_balances d ! i)"
proof -
  assume p: "post_journal_entry development body d = (Success status data, d')"
  have found: "\<forall>l \<in> set (b_lines body).
      \<exists>a t. account_with_type d (l_accountId l) = Some (a, t)
            \<and> a \<in> set (accounts d) \<and> t \<in> set (account_types d)
            \<and> a_id a = l_accountId l \<and> a_account_type_id a = at_id t"
  proof
    fix l
    assume "l \<in> set (b_lines body)"
    with post_success_accounts(2) [OF p] obtain a t where
      "account_with_type d (l_accountId l) = Some (a, t)"
      by fastforce
    with account_with_type_Some [of d "l_accountId l" a t]
    show "\<exists>a t. account_with_type d (l_accountId l) = Some (a, t)
            \<and> a \<in> set (accounts d) \<and> t \<in> set (account_types d)
            \<and> a_id a = l_accountId l \<and> a_account_type_id a = at_id t"
      by blast
  qed
  have delta: "line_delta d =
      (\<lambda>l. case account_with_type d (l_accountId l) of
              None \<Rightarrow> 0
            | Some (a, t) \<Rightarrow>
                if at_normal_balance t = ''debit''
                then l_debitAmount l - l_creditAmount l
                else l_creditAmount l - l_debitAmount l)"
    by (rule ext) (simp add: line_delta_def balanceChange_def split: option.splits)
  have m: "account_balances d' =
      map (apply_deltas d (b_organizationId body) (b_lines body)) (account_balances d)"
    using post_success_state [OF p] by simp
  have same: "account_balances d' ! i = account_balances d ! i"
    if "i < length (account_balances d)"
      "ab_organization_id (account_balances d ! i) \<noteq> b_organizationId body
       \<or> ab_account_id (account_balances d ! i) \<notin> l_accountId ` set (b_lines body)" for i
  proof -
    from that(2) have "apply_deltas d (b_organizationId body) (b_lines body) (account_balances d ! i)
        = account_balances d ! i"
    proof
      assume "ab_organization_id (account_balances d ! i) \<noteq> b_organizationId body"
      then show ?thesis by (simp add: apply_deltas_def)
    next
      assume "ab_account_id (account_balances d ! i) \<notin> l_accountId ` set (b_lines body)"
      then have "filter (\<lambda>line. l_accountId line = ab_account_id (account_balances d ! i))
          (b_lines body) = []"
        unfolding filter_empty_conv by (metis imageI)
      then show ?thesis by (simp add: apply_deltas_def account_delta_def)
    qed
    with that(1) m show ?thesis by simp
  qed
  from found m same show ?thesis
    by (simp add: apply_deltas_def [abs_def] account_delta_def delta)
qed

theorem posting_updates_balances_witness:
  "is_success (fst (post_journal_entry False (mk_body 1 10 [mk_line 1 120 20, mk_line 2 30 130])
                      example_db))
   \<and> map ab_account_id (account_balances example_db) = [1, 2, 7]
   \<and> map ab_balance (account_balances example_db) = [500, 500, 40]
   \<and> map ab_balance (account_balances
         (snd (post_journal_entry False (mk_body 1 10 [mk_line 1 120 20, mk_line 2 30 130])
                 example_db)))
       = [500 + (120 - 20), 500 + (130 - 30), 40]"
proof -
  let ?body = "mk_body 1 10 [mk_line 1 120 20, mk_line 2 30 130]"
  have s: "is_success (fst (post_journal_entry False ?body example_db))"
    by (simp add: example_defs posting_defs)
  then obtain status data where
    p: "post_journal_entry False ?body example_db =
          (Success status data, snd (post_journal_entry False ?body example_db))"
    by (cases "post_journal_entry False ?body example_db";
        cases "fst (post_journal_entry False ?body example_db)")
       (simp_all add: is_success_def)
  have look: "account_with_type example_db 1 =
        Some (mk_account 1 1 ''1000'' ''Cash'' 1 (Some 1),
              \<lparr>at_id = 1, at_name = ''Asset'', at_normal_balance = ''debit''\<rparr>)"
    "account_with_type example_db 2 =
        Some (mk_account 2 1 ''4000'' ''Sales'' 4 (Some 2),
              \<lparr>at_id = 4, at_name = ''Revenue'', at_normal_balance = ''credit''\<rparr>)"
    by (simp_all add: example_db_def account_with_type_def accounts_join_types_def
          first_row_def mk_account_def)
  have rows: "account_balances example_db =
      [\<lparr>ab_account_id = 1, ab_organization_id = 1, ab_balance = 500\<rparr>,
       \<lparr>ab_account_id = 2, ab_organization_id = 1, ab_balance = 500\<rparr>,
       \<lparr>ab_account_id = 7, ab_organization_id = 2, ab_balance = 40\<rparr>]"
    by (simp add: example_db_def)
  have rhs: "map (\<lambda>b. if ab_organization_id b = b_organizationId ?body
                then b\<lparr>ab_balance := ab_balance b
                       + sum_list
                           (map (\<lambda>l. case account_with_type example_db (l_accountId l) of
                                        None \<Rightarrow> 0
                                      | Some (a, t) \<Rightarrow>
                                          if at_normal_balance t = ''debit''
                                          then l_debitAmount l - l_creditAmount l
                                          else l_creditAmount l - l_debitAmount l)
                              (filter (\<lambda>l. l_accountId l = ab_account_id b) (b_lines ?body)))\<rparr>
                else b)
         (account_balances example_db)
       = [\<lparr>ab_account_id = 1, ab_organization_id = 1, ab_balance = 500 + (120 - 20)\<rparr>,
          \<lparr>ab_account_id = 2, ab_organization_id = 1, ab_balance = 500 + (130 - 30)\<rparr>,
          \<lparr>ab_account_id = 7, ab_organization_id = 2, ab_balance = 40\<rparr>]"
    by (simp add: rows look mk_body_def mk_line_def)
  from posting_updates_balances [OF p]
  have "account_balances (snd (post_journal_entry False ?body example_db)) =
       map (\<lambda>b. if ab_organization_id b = b_organizationId ?body
                then b\<lparr>ab_balance := ab_balance b
                       + sum_list
                           (map (\<lambda>l. case account_with_type example_db (l_accountId l) of
                                        None \<Rightarrow> 0
                                      | Some (a, t) \<Rightarrow>
                                          if at_normal_balance t = ''debit''
                                          then l_debitAmount l - l_creditAmount l
                                          else l_creditAmount l - l_debitAmount l)
                              (filter (\<lambda>l. l_accountId l = ab_account_id b) (b_lines ?body)))\<rparr>
                else b)
         (account_balances example_db)"
    by blast
  then have "account_balances (snd (post_journal_entry False ?body example_db))
       = [\<lparr>ab_account_id = 1, ab_organization_id = 1, ab_balance = 500 + (120 - 20)\<rparr>,
          \<lparr>ab_account_id = 2, ab_organization_id = 1, ab_balance = 500 + (130 - 30)\<rparr>,
          \<lparr>ab_account_id = 7, ab_organization_id = 2, ab_balance = 40\<rparr>]"
    by (simp only: rhs)
  then have "map ab_balance (account_balances (snd (post_journal_entry False ?body example_db)))
      = [500 + (120 - 20), 500 + (130 - 30), 40]"
    by (simp only: list.map account_balance_row.simps)
  moreover have "map ab_account_id (account_balances example_db) = [1, 2, 7]"
    "map ab_balance (account_balances example_db) = [500, 500, 40]"
    by (simp_all add: rows)
  ultimately show ?thesis using s by blast
qed

theorem posting_updates_balances_counterexample:
  "is_success (fst (post_journal_entry False (mk_body 1 10 [mk_line 1 120 20, mk_line 1 20 120])
                      example_db))
   \<and> map_option (at_normal_balance \<circ> snd) (account_with_type example_db 1) = Some ''debit''
   \<and> l_debitAmount (mk_line 1 120 20) - l_creditAmount (mk_line 1 120 20) = 100
   \<and> map ab_account_id (account_balances example_db) = [1, 2, 7]
   \<and> map ab_balance (account_balances example_db) = [500, 500, 40]
   \<and> map ab_balance (account_balances
         (snd (post_journal_entry False (mk_body 1 10 [mk_line 1 120 20, mk_line 1 20 120])
                 example_db)))
       = [500, 500, 40]
   \<and> is_success (fst (post_journal_entry False (mk_body 1 10 [mk_line 7 120 20, mk_line 2 30 130])
                        example_db))
   \<and> map_option (at_normal_balance \<circ> snd) (account_with_type example_db 7) = Some ''debit''
   \<and> l_debitAmount (mk_line 7 120 20) - l_creditAmount (mk_line 7 120 20) = 100
   \<and> map ab_balance (account_balances
         (snd (post_journal_entry False (mk_body 1 10 [mk_line 7 120 20, mk_line 2 30 130])
                 example_db)))
       = [500, 600, 40]"
  by (simp add: example_defs posting_defs)

text \<open>
  C4, as the handler has it. When a line's account exists but \<open>account_balances\<close> has no
  row for it and the posting organization, the increment changes no row and raises
  nothing: a posting that passes the balance check and whose accounts all exist is
  committed with status 201, entry and lines inserted, and afterwards there is still no
  balance row for that account and organization.
\<close>

theorem missing_balance_row_commits:
  assumes "\<not> out_of_balance (b_lines body)"
    and "\<forall>l \<in> set (b_lines body). account_with_type d (l_accountId l) \<noteq> None"
    and "line \<in> set (b_lines body)"
    and "\<forall>b \<in> set (account_balances d).
           \<not> (ab_account_id b = l_accountId line \<and> ab_organization_id b = b_organizationId body)"
  shows "increment_balance (l_accountId line) (b_organizationId body) change d = d
     \<and> (\<exists>data d'. post_journal_entry development body d = (Success 201 data, d')
          \<and> journal_entries d' = journal_entries (with_entry_and_lines body d)
          \<and> journal_entry_lines d' = journal_entry_lines (with_entry_and_lines body d)
          \<and> (\<forall>b \<in> set (account_balances d').
                \<not> (ab_account_id b = l_accountId line
                   \<and> ab_organization_id b = b_organizationId body)))"
proof -
  from assms(4) have "map (\<lambda>b. if ab_account_id b = l_accountId line
                              \<and> ab_organization_id b = b_organizationId body
                           then b\<lparr>ab_balance := ab_balance b + change\<rparr> else b) (account_balances d)
      = account_balances d"
    by (intro map_idI) auto
  then have inc: "increment_balance (l_accountId line) (b_organizationId body) change d = d"
    by (simp add: increment_balance_def)
  from post_success_exists [OF assms(1,2), of development] obtain data where
    p: "post_journal_entry development body d =
         (Success 201 data,
          (with_entry_and_lines body d)\<lparr>account_balances :=
             map (apply_deltas d (b_organizationId body) (b_lines body)) (account_balances d)\<rparr>)"
    by blast
  have "\<forall>b \<in> set (map (apply_deltas d (b_organizationId body) (b_lines body)) (account_balances d)).
          \<not> (ab_account_id b = l_accountId line \<and> ab_organization_id b = b_organizationId body)"
    using assms(4) by (auto simp: apply_deltas_def)
  with p inc show ?thesis by simp
qed

theorem missing_balance_row_commits_witness:
  "increment_balance 3 1 100 example_db = example_db
   \<and> (\<exists>data d'.
         post_journal_entry False (mk_body 1 10 [mk_line 3 100 0, mk_line 2 0 100]) example_db
           = (Success 201 data, d')
         \<and> length (journal_entries d') = 1 \<and> length (journal_entry_lines d') = 2
         \<and> (\<forall>b \<in> set (account_balances d'). \<not> (ab_account_id b = 3 \<and> ab_organization_id b = 1)))"
proof -
  let ?body = "mk_body 1 10 [mk_line 3 100 0, mk_line 2 0 100]"
  have h1: "\<not> out_of_balance (b_lines ?body)"
    by (simp add: example_defs)
  have h2: "\<forall>l \<in> set (b_lines ?body). account_with_type example_db (l_accountId l) \<noteq> None"
    by (simp add: example_defs posting_defs)
  have h3: "mk_line 3 100 0 \<in> set (b_lines ?body)"
    by (simp add: mk_body_def)
  have h4: "\<forall>b \<in> set (account_balances example_db).
           \<not> (ab_account_id b = l_accountId (mk_line 3 100 0)
              \<and> ab_organization_id b = b_organizationId ?body)"
    by (simp add: example_defs)
  have e: "length (journal_entries (with_entry_and_lines ?body example_db)) = 1"
    "length (journal_entry_lines (with_entry_and_lines ?body example_db)) = 2"
    by (simp_all add: with_entry_and_lines_def example_defs posting_defs)
  have k: "l_accountId (mk_line 3 100 0) = 3" "b_organizationId ?body = 1"
    by (simp_all add: mk_line_def mk_body_def)
  from missing_balance_row_commits [OF h1 h2 h3 h4, of 100 False] e show ?thesis
    unfolding k by auto
qed

theorem missing_balance_row_counterexample:
  "account_with_type example_db 3 \<noteq> None
   \<and> (3, 1) \<notin> set (zip (map ab_account_id (account_balances example_db))
                         (map ab_organization_id (account_balances example_db)))
   \<and> is_success (fst (post_journal_entry False (mk_body 1 10 [mk_line 3 100 0, mk_line 2 0 100]) example_db))
   \<and> map je_status (journal_entries
        (snd (post_journal_entry False (mk_body 1 10 [mk_line 3 100 0, mk_line 2 0 100]) example_db)))
       = [''posted'']
   \<and> map jl_account_id (journal_entry_lines
        (snd (post_journal_entry False (mk_body 1 10 [mk_line 3 100 0, mk_line 2 0 100]) example_db)))
       = [3, 2]
   \<and> zip (map ab_account_id (account_balances
          (snd (post_journal_entry False (mk_body 1 10 [mk_line 3 100 0, mk_line 2 0 100]) example_db))))
        (map ab_balance (account_balances
          (snd (post_journal_entry False (mk_body 1 10 [mk_line 3 100 0, mk_line 2 0 100]) example_db))))
       = [(1, 500), (2, 600), (7, 40)]"
  by (simp add: example_defs posting_defs)


lemma filter_map_unchanged:
  "(\<And>x. x \<in> set xs \<Longrightarrow> P (f x) = P x) \<Longrightarrow> (\<And>x. x \<in> set xs \<Longrightarrow> P x \<Longrightarrow> f x = x) \<Longrightarrow>
   filter P (map f xs) = filter P xs"
  by (induction xs) auto

text \<open>
  C10, as the handler has it. The account lookup of the balance loop filters by id alone
  and the increment filters by the posting organization. So when a line references an
  account of another organization, the posting is committed whenever it passes the
  balance check and every line's account exists (status 201, the entry inserted with
  status \<open>'posted'\<close>, one line row per line), and, committed or not, the balance rows of
  that account under its own organization are the same afterwards. When the account has
  balance rows under its own organization only, the increment for the line selects no
  row at all.
\<close>

theorem foreign_account_unchecked:
  assumes "line \<in> set (b_lines body)"
    and "a \<in> set (accounts d)"
    and "a_id a = l_accountId line"
    and "a_organization_id a \<noteq> b_organizationId body"
  shows "(\<not> out_of_balance (b_lines body)
          \<and> (\<forall>l \<in> set (b_lines body). account_with_type d (l_accountId l) \<noteq> None)
          \<longrightarrow> (\<exists>data d' e ls.
                 post_journal_entry development body d = (Success 201 data, d')
                 \<and> journal_entries d' = journal_entries d @ [e] \<and> je_status e = ''posted''
                 \<and> journal_entry_lines d' = journal_entry_lines d @ ls
                 \<and> map jl_account_id ls = map l_accountId (b_lines body)
                 \<and> (\<forall>r \<in> set ls. jl_journal_entry_id r = je_id e)))
     \<and> filter (\<lambda>b. ab_account_id b = a_id a \<and> ab_organization_id b = a_organization_id a)
          (account_balances (snd (post_journal_entry development body d)))
       = filter (\<lambda>b. ab_account_id b = a_id a \<and> ab_organization_id b = a_organization_id a)
          (account_balances d)
     \<and> ((\<forall>b \<in> set (account_balances d).
            ab_account_id b = a_id a \<longrightarrow> ab_organization_id b = a_organization_id a)
          \<longrightarrow> increment_balance (l_accountId line) (b_organizationId body) change d = d)"
proof (intro conjI)
  show "\<not> out_of_balance (b_lines body)
          \<and> (\<forall>l \<in> set (b_lines body). account_with_type d (l_accountId l) \<noteq> None)
          \<longrightarrow> (\<exists>data d' e ls.
                 post_journal_entry development body d = (Success 201 data, d')
                 \<and> journal_entries d' = journal_entries d @ [e] \<and> je_status e = ''posted''
                 \<and> journal_entry_lines d' = journal_entry_lines d @ ls
                 \<and> map jl_account_id ls = map l_accountId (b_lines body)
                 \<and> (\<forall>r \<in> set ls. jl_journal_entry_id r = je_id e))"
  proof
    assume h: "\<not> out_of_balance (b_lines body)
          \<and> (\<forall>l \<in> set (b_lines body). account_with_type d (l_accountId l) \<noteq> None)"
    then obtain data where
      p: "post_journal_entry development body d =
         (Success 201 data,
          (with_entry_and_lines body d)\<lparr>account_balances :=
             map (apply_deltas d (b_organizationId body) (b_lines body)) (account_balances d)\<rparr>)"
      using post_success_exists [of body d development] by blast
    from with_entry_and_lines_entry [of body d] obtain e ls where
      "journal_entries (with_entry_and_lines body d) = journal_entries d @ [e]"
      "je_status e = ''posted''"
      "journal_entry_lines (with_entry_and_lines body d) = journal_entry_lines d @ ls"
      "map jl_account_id ls = map l_accountId (b_lines body)"
      "\<forall>r \<in> set ls. jl_journal_entry_id r = je_id e"
      by blast
    with p show "\<exists>data d' e ls.
                 post_journal_entry development body d = (Success 201 data, d')
                 \<and> journal_entries d' = journal_entries d @ [e] \<and> je_status e = ''posted''
                 \<and> journal_entry_lines d' = journal_entry_lines d @ ls
                 \<and> map jl_account_id ls = map l_accountId (b_lines body)
                 \<and> (\<forall>r \<in> set ls. jl_journal_entry_id r = je_id e)"
      by simp
  qed
next
  obtain r d' where p: "post_journal_entry development body d = (r, d')"
    by (cases "post_journal_entry development body d")
  have "filter (\<lambda>b. ab_account_id b = a_id a \<and> ab_organization_id b = a_organization_id a)
          (account_balances d')
       = filter (\<lambda>b. ab_account_id b = a_id a \<and> ab_organization_id b = a_organization_id a)
          (account_balances d)"
  proof (cases r)
    case (Failure status code det)
    with p post_failure_unchanged [of development body d status code det d']
    show ?thesis by simp
  next
    case (Success status data)
    with p post_success_state [of development body d status data d']
    have "account_balances d' =
        map (apply_deltas d (b_organizationId body) (b_lines body)) (account_balances d)"
      by simp
    moreover have "filter (\<lambda>b. ab_account_id b = a_id a \<and> ab_organization_id b = a_organization_id a)
          (map (apply_deltas d (b_organizationId body) (b_lines body)) (account_balances d))
       = filter (\<lambda>b. ab_account_id b = a_id a \<and> ab_organization_id b = a_organization_id a)
          (account_balances d)"
      using assms(4) by (intro filter_map_unchanged) (auto simp: apply_deltas_def)
    ultimately show ?thesis by simp
  qed
  with p show "filter (\<lambda>b. ab_account_id b = a_id a \<and> ab_organization_id b = a_organization_id a)
          (account_balances (snd (post_journal_entry development body d)))
       = filter (\<lambda>b. ab_account_id b = a_id a \<and> ab_organization_id b = a_organization_id a)
          (account_balances d)"
    by simp
next
  show "(\<forall>b \<in> set (account_balances d).
            ab_account_id b = a_id a \<longrightarrow> ab_organization_id b = a_organization_id a)
          \<longrightarrow> increment_balance (l_accountId line) (b_organizationId body) change d = d"
  proof
    assume own: "\<forall>b \<in> set (account_balances d).
            ab_account_id b = a_id a \<longrightarrow> ab_organization_id b = a_organization_id a"
    have "map (\<lambda>b. if ab_account_id b = l_accountId line
                          \<and> ab_organization_id b = b_organizationId body
                       then b\<lparr>ab_balance := ab_balance b + change\<rparr> else b) (account_balances d)
        = account_balances d"
      using own assms(3,4) by (intro map_idI) auto
    then show "increment_balance (l_accountId line) (b_organizationId body) change d = d"
      by (simp add: increment_balance_def)
  qed
qed

theorem foreign_account_unchecked_witness:
  "(\<exists>data d' e ls.
       post_journal_entry False (mk_body 1 10 [mk_line 7 100 0, mk_line 2 0 100]) example_db
         = (Success 201 data, d')
       \<and> journal_entries d' = journal_entries example_db @ [e] \<and> je_status e = ''posted''
       \<and> journal_entry_lines d' = journal_entry_lines example_db @ ls
       \<and> map jl_account_id ls = [7, 2]
       \<and> (\<forall>r \<in> set ls. jl_journal_entry_id r = je_id e))
   \<and> filter (\<lambda>b. ab_account_id b = 7 \<and> ab_organization_id b = 2)
        (account_balances
           (snd (post_journal_entry False (mk_body 1 10 [mk_line 7 100 0, mk_line 2 0 100]) example_db)))
     = [\<lparr>ab_account_id = 7, ab_organization_id = 2, ab_balance = 40\<rparr>]
   \<and> increment_balance 7 1 100 example_db = example_db"
proof -
  let ?body = "mk_body 1 10 [mk_line 7 100 0, mk_line 2 0 100]"
  let ?a = "mk_account 7 2 ''1000'' ''Cash'' 1 None"
  have h1: "mk_line 7 100 0 \<in> set (b_lines ?body)"
    by (simp add: mk_body_def)
  have h2: "?a \<in> set (accounts example_db)"
    by (simp add: example_db_def)
  have h3: "a_id ?a = l_accountId (mk_line 7 100 0)"
    by (simp add: mk_account_def mk_line_def)
  have h4: "a_organization_id ?a \<noteq> b_organizationId ?body"
    by (simp add: mk_account_def mk_body_def)
  have h5: "\<not> out_of_balance (b_lines ?body)
          \<and> (\<forall>l \<in> set (b_lines ?body). account_with_type example_db (l_accountId l) \<noteq> None)"
    by (simp add: example_defs posting_defs)
  have k: "a_id ?a = 7" "a_organization_id ?a = 2"
    "map l_accountId (b_lines ?body) = [7, 2]"
    "filter (\<lambda>b. ab_account_id b = 7 \<and> ab_organization_id b = 2) (account_balances example_db)
      = [\<lparr>ab_account_id = 7, ab_organization_id = 2, ab_balance = 40\<rparr>]"
    by (simp_all add: example_defs)
  have h6: "\<forall>b \<in> set (account_balances example_db).
            ab_account_id b = a_id ?a \<longrightarrow> ab_organization_id b = a_organization_id ?a"
    by (simp add: example_defs)
  have k2: "l_accountId (mk_line 7 100 0) = 7" "b_organizationId ?body = 1"
    by (simp_all add: mk_line_def mk_body_def)
  from foreign_account_unchecked [OF h1 h2 h3 h4, of False 100] h5 h6 show ?thesis
    unfolding k k2 by blast
qed

theorem foreign_account_counterexample:
  "mk_account 7 2 ''1000'' ''Cash'' 1 None \<in> set (accounts example_db)
   \<and> post_journal_entry False (mk_body 1 10 [mk_line 7 100 0, mk_line 2 0 90]) example_db
       = (Failure 400 ''UNBALANCED_ENTRY'' (BalanceDetails (Double 100) (Double 90) (Double 10)),
          example_db)"
  by (simp add: example_defs posting_defs)

section \<open>Properties of the ledger view\<close>

text \<open>
  Two facts about the handler on every input. The last row of the page in query order,
  which is the oldest and comes first in the response, carries the starting balance plus
  the changes of all rows of the page. And without a \<open>startDate\<close> the rows summed into the
  starting balance begin with the rows of the page itself.
\<close>

lemma add_running_balance_last:
  "ts \<noteq> [] \<Longrightarrow>
   lt_balance (last (add_running_balance normalBalance runningBalance ts)) =
     Some (runningBalance
           + sum_list (map (\<lambda>t. balanceChange normalBalance (lt_debitAmount t) (lt_creditAmount t)) ts))"
proof (induction ts arbitrary: runningBalance)
  case Nil
  then show ?case by simp
next
  case (Cons t ts)
  show ?case
  proof (cases "ts = []")
    case True
    then show ?thesis by (simp add: Let_def)
  next
    case False
    then have "add_running_balance normalBalance
        (runningBalance + balanceChange normalBalance (lt_debitAmount t) (lt_creditAmount t)) ts \<noteq> []"
      by (cases ts) (simp_all add: Let_def)
    with Cons.IH [OF False] show ?thesis
      by (simp add: Let_def add.assoc)
  qed
qed

lemma previousTransactions_contains_page:
  "previousTransactions d accountId orgId None page limit =
     ledger_page d accountId orgId None None page limit
     @ drop limit (drop ((page - 1) * limit) (order_desc (posted_lines_of d accountId orgId)))"
proof -
  have "date_filters None None (posted_lines_of d accountId orgId) = posted_lines_of d accountId orgId"
    by (simp add: date_filters_def)
  moreover have "drop ((page - 1) * limit) (order_desc (posted_lines_of d accountId orgId)) =
      take limit (drop ((page - 1) * limit) (order_desc (posted_lines_of d accountId orgId)))
      @ drop limit (drop ((page - 1) * limit) (order_desc (posted_lines_of d accountId orgId)))"
    by (simp only: append_take_drop_id)
  ultimately show ?thesis
    by (simp only: previousTransactions_def ledger_page_def option.case)
qed

lemma ledger_db_value:
  "ledger_db = example_db
     \<lparr>account_balances :=
        [\<lparr>ab_account_id = 1, ab_organization_id = 1, ab_balance = 650\<rparr>,
         \<lparr>ab_account_id = 2, ab_organization_id = 1, ab_balance = 650\<rparr>,
         \<lparr>ab_account_id = 7, ab_organization_id = 2, ab_balance = 40\<rparr>],
      journal_entries :=
        [\<lparr>je_id = 1, je_organization_id = 1, je_date = 10, je_reference = ''JE'',
          je_description = None, je_status = ''posted''\<rparr>,
         \<lparr>je_id = 2, je_organization_id = 1, je_date = 20, je_reference = ''JE'',
          je_description = None, je_status = ''posted''\<rparr>],
      journal_entry_lines :=
        [\<lparr>jl_id = 1, jl_journal_entry_id = 1, jl_account_id = 1, jl_description = None,
          jl_debit_amount = 100, jl_credit_amount = 0, jl_tax_rate = None, jl_tax_amount = None\<rparr>,
         \<lparr>jl_id = 2, jl_journal_entry_id = 1, jl_account_id = 2, jl_description = None,
          jl_debit_amount = 0, jl_credit_amount = 100, jl_tax_rate = None, jl_tax_amount = None\<rparr>,
         \<lparr>jl_id = 3, jl_journal_entry_id = 2, jl_account_id = 1, jl_description = None,
          jl_debit_amount = 50, jl_credit_amount = 0, jl_tax_rate = None, jl_tax_amount = None\<rparr>,
         \<lparr>jl_id = 4, jl_journal_entry_id = 2, jl_account_id = 2, jl_description = None,
          jl_debit_amount = 0, jl_credit_amount = 50, jl_tax_rate = None, jl_tax_amount = None\<rparr>]\<rparr>"
  by (simp add: ledger_db_def example_defs posting_defs)

lemma ledger_db3_value:
  "ledger_db3 = example_db
     \<lparr>account_balances :=
        [\<lparr>ab_account_id = 1, ab_organization_id = 1, ab_balance = 620\<rparr>,
         \<lparr>ab_account_id = 2, ab_organization_id = 1, ab_balance = 650\<rparr>,
         \<lparr>ab_account_id = 7, ab_organization_id = 2, ab_balance = 40\<rparr>],
      journal_entries :=
        [\<lparr>je_id = 1, je_organization_id = 1, je_date = 10, je_reference = ''JE'',
          je_description = None, je_status = ''posted''\<rparr>,
         \<lparr>je_id = 2, je_organization_id = 1, je_date = 20, je_reference = ''JE'',
          je_description = None, je_status = ''posted''\<rparr>,
         \<lparr>je_id = 3, je_organization_id = 1, je_date = 30, je_reference = ''JE'',
          je_description = None, je_status = ''posted''\<rparr>],
      journal_entry_lines :=
        [\<lparr>jl_id = 1, jl_journal_entry_id = 1, jl_account_id = 1, jl_description = None,
          jl_debit_amount = 100, jl_credit_amount = 0, jl_tax_rate = None, jl_tax_amount = None\<rparr>,
         \<lparr>jl_id = 2, jl_journal_entry_id = 1, jl_account_id = 2, jl_description = None,
          jl_debit_amount = 0, jl_credit_amount = 100, jl_tax_rate = None, jl_tax_amount = None\<rparr>,
         \<lparr>jl_id = 3, jl_journal_entry_id = 2, jl_account_id = 1, jl_description = None,
          jl_debit_amount = 50, jl_credit_amount = 0, jl_tax_rate = None, jl_tax_amount = None\<rparr>,
         \<lparr>jl_id = 4, jl_journal_entry_id = 2, jl_account_id = 2, jl_description = None,
          jl_debit_amount = 0, jl_credit_amount = 50, jl_tax_rate = None, jl_tax_amount = None\<rparr>,
         \<lparr>jl_id = 5, jl_journal_entry_id = 3, jl_account_id = 3, jl_description = None,
          jl_debit_amount = 30, jl_credit_amount = 0, jl_tax_rate = None, jl_tax_amount = None\<rparr>,
         \<lparr>jl_id = 6, jl_journal_entry_id = 3, jl_account_id = 1, jl_description = None,
          jl_debit_amount = 0, jl_credit_amount = 30, jl_tax_rate = None, jl_tax_amount = None\<rparr>]\<rparr>"
  by (simp add: ledger_db3_def ledger_db_value)
     (simp add: example_defs posting_defs)

lemmas ledger_defs =
  get_ledger_def ledger_account_def ledger_page_def posted_lines_of_def lines_join_entries_def
  date_filters_def order_desc_def newer_or_same_def select_transaction_def
  previousTransactions_def pages_of_def reported_balances_def expected_balances_def
  historical_balance_def accounts_join_types_def first_row_def balanceChange_def

text \<open>
  C6 at a concrete ledger. The cash account of organization 1 has two posted lines, a
  debit of 100 on day 10 and a debit of 50 on day 20. Page 1 without filters returns
  them in chronological order, but with the balances 150 and 50: the handler adds up
  from the newest row of the page, so the oldest row carries the sum of the whole page
  and the newest only its own change. The running balances are 100 and 150.
\<close>

theorem ledger_first_page_balances:
  "reported_balances (get_ledger False ledger_db 1 1 None None 1 50) = [(1, Some 150), (2, Some 50)]
   \<and> expected_balances ledger_db 1 1 None None 1 50 ''debit'' = [(1, 100), (2, 150)]"
  by (simp add: ledger_db_value example_defs ledger_defs)

text \<open>
  C5 at concrete ledgers. Page 2 of size 1 of the same ledger holds the line of day 10,
  with no older row; the handler seeds the balance with 100, the line of the page
  itself, and reports 200 where the balance is 100. With a third posting on day 30 that
  credits cash 30 and \<open>startDate\<close> 20, the seed is the 100 of day 10, but the oldest
  returned row, of day 20, is reported with 120 and the next with 70, where the balances
  are 150 and 120.
\<close>

theorem ledger_resumed_page_balances:
  "previous_balance ''debit'' 0 (previousTransactions ledger_db 1 1 None 2 1) = 100
   \<and> reported_balances (get_ledger False ledger_db 1 1 None None 2 1) = [(1, Some 200)]
   \<and> expected_balances ledger_db 1 1 None None 2 1 ''debit'' = [(1, 100)]
   \<and> previous_balance ''debit'' 0 (previousTransactions ledger_db3 1 1 (Some 20) 1 50) = 100
   \<and> reported_balances (get_ledger False ledger_db3 1 1 (Some 20) None 1 50)
       = [(2, Some 120), (3, Some 70)]
   \<and> expected_balances ledger_db3 1 1 (Some 20) None 1 50 ''debit'' = [(2, 150), (3, 120)]"
  by (simp add: ledger_db_value ledger_db3_value example_defs ledger_defs)

section \<open>Properties of the reports\<close>

lemma set_left_join:
  "set (left_join xs) = (if xs = [] then {None} else Some ` set xs)"
  by (simp add: left_join_def)

lemma left_join_nonempty: "\<exists>x. x \<in> set (left_join xs)"
  by (cases xs) (auto simp: left_join_def)

lemma classify_accounts_result:
  "classify_accounts accs totalDebits totalCredits =
     (map (\<lambda>acc. acc\<lparr>tb_debitBalance :=
                       (if tb_normalBalance acc = ''debit''
                        then (if 0 \<le> tb_balance acc then tb_balance acc else tb_debitBalance acc)
                        else (if 0 \<le> tb_balance acc then tb_debitBalance acc else \<bar>tb_balance acc\<bar>)),
                     tb_creditBalance :=
                       (if tb_normalBalance acc = ''debit''
                        then (if 0 \<le> tb_balance acc then tb_creditBalance acc else \<bar>tb_balance acc\<bar>)
                        else (if 0 \<le> tb_balance acc then tb_balance acc else tb_creditBalance acc))\<rparr>)
        accs,
      totalDebits
        + sum_list (map (\<lambda>acc. if tb_normalBalance acc = ''debit''
                                then (if 0 \<le> tb_balance acc then tb_balance acc else 0)
                                else (if 0 \<le> tb_balance acc then 0 else \<bar>tb_balance acc\<bar>)) accs),
      totalCredits
        + sum_list (map (\<lambda>acc. if tb_normalBalance acc = ''debit''
                                then (if 0 \<le> tb_balance acc then 0 else \<bar>tb_balance acc\<bar>)
                                else (if 0 \<le> tb_balance acc then tb_balance acc else 0)) accs))"
  by (induction accs arbitrary: totalDebits totalCredits) (simp_all add: add.assoc)


lemma set_trial_balance_query:
  "(a, t, c, b) \<in> set (trial_balance_query d orgId) \<longleftrightarrow>
     (a, t) \<in> set (accounts_join_types d) \<and> a_organization_id a = orgId
     \<and> c \<in> set (left_join (filter (\<lambda>c. a_account_category_id a = Some (ac_id c))
                               (account_categories d)))
     \<and> b \<in> set (left_join (filter (\<lambda>b. ab_account_id b = a_id a
                                        \<and> ab_organization_id b = a_organization_id a)
                               (account_balances d)))"
  by (auto simp: trial_balance_query_def)

lemma trial_balance_value:
  "trial_balance d orgId =
     Success 200
       \<lparr>tbd_accounts =
          map (\<lambda>r. (select_account r)
                 \<lparr>tb_debitBalance :=
                    (if tb_normalBalance (select_account r) = ''debit''
                     then (if 0 \<le> tb_balance (select_account r) then tb_balance (select_account r) else 0)
                     else (if 0 \<le> tb_balance (select_account r) then 0
                           else \<bar>tb_balance (select_account r)\<bar>)),
                  tb_creditBalance :=
                    (if tb_normalBalance (select_account r) = ''debit''
                     then (if 0 \<le> tb_balance (select_account r) then 0
                           else \<bar>tb_balance (select_account r)\<bar>)
                     else (if 0 \<le> tb_balance (select_account r) then tb_balance (select_account r)
                           else 0))\<rparr>)
            (trial_balance_query d orgId),
        tbd_totalDebits =
          sum_list (map (\<lambda>r. if tb_normalBalance (select_account r) = ''debit''
                             then (if 0 \<le> tb_balance (select_account r)
                                   then tb_balance (select_account r) else 0)
                             else (if 0 \<le> tb_balance (select_account r) then 0
                                   else \<bar>tb_balance (select_account r)\<bar>))
                      (trial_balance_query d orgId)),
        tbd_totalCredits =
          sum_list (map (\<lambda>r. if tb_normalBalance (select_account r) = ''debit''
                             then (if 0 \<le> tb_balance (select_account r) then 0
                                   else \<bar>tb_balance (select_account r)\<bar>)
                             else (if 0 \<le> tb_balance (select_account r)
                                   then tb_balance (select_account r) else 0))
                      (trial_balance_query d orgId)),
        tbd_difference =
          \<bar>sum_list (map (\<lambda>r. if tb_normalBalance (select_account r) = ''debit''
                             then (if 0 \<le> tb_balance (select_account r)
                                   then tb_balance (select_account r) else 0)
                             else (if 0 \<le> tb_balance (select_account r) then 0
                                   else \<bar>tb_balance (select_account r)\<bar>))
                      (trial_balance_query d orgId))
           - sum_list (map (\<lambda>r. if tb_normalBalance (select_account r) = ''debit''
                             then (if 0 \<le> tb_balance (select_account r) then 0
                                   else \<bar>tb_balance (select_account r)\<bar>)
                             else (if 0 \<le> tb_balance (select_account r)
                                   then tb_balance (select_account r) else 0))
                      (trial_balance_query d orgId))\<bar>\<rparr>"
proof -
  have z: "tb_debitBalance (select_account r) = 0" "tb_creditBalance (select_account r) = 0" for r
    by (cases r, simp add: select_account_def)+
  show ?thesis
    unfolding trial_balance_def classify_accounts_result
    by (simp add: z comp_def cong: if_cong)
qed


text \<open>
  The rows of the query, account by account: the join with the types, the two left joins
  and the where-clause, read off the tables.
\<close>

lemma inner_join:
  "concat (map (\<lambda>(a, t). G a t) (concat (map (\<lambda>t. if P a t then [(a, t)] else []) ts)))
   = concat (map (\<lambda>t. if P a t then G a t else []) ts)"
  by (induction ts) simp_all

lemma join_rows:
  "concat (map (\<lambda>(a, t). G a t)
     (concat (map (\<lambda>a. concat (map (\<lambda>t. if P a t then [(a, t)] else []) ts)) as)))
   = concat (map (\<lambda>a. concat (map (\<lambda>t. if P a t then G a t else []) ts)) as)"
  by (induction as) (simp_all add: inner_join)

lemma map_concat_if:
  "map f (concat (map (\<lambda>t. if P t then G t else []) ts))
   = concat (map (\<lambda>t. if P t then map f (G t) else []) ts)"
  by (induction ts) simp_all

lemma concat_if_nil: "concat (map (\<lambda>t. if P t then [] else []) ts) = []"
  by (induction ts) simp_all

lemma map_join:
  "map f (concat (map (\<lambda>a. concat (map (\<lambda>t. if P a t then G a t else []) ts)) as))
   = concat (map (\<lambda>a. concat (map (\<lambda>t. if P a t then map f (G a t) else []) ts)) as)"
  by (induction as) (simp_all add: map_concat_if)

lemma trial_balance_query_rows:
  "map (\<lambda>r. (tb_id (select_account r), tb_normalBalance (select_account r),
              tb_balance (select_account r))) (trial_balance_query d orgId)
   = [(a_id a, at_normal_balance t, balance).
        a \<leftarrow> accounts d, a_organization_id a = orgId,
        t \<leftarrow> account_types d, a_account_type_id a = at_id t,
        c \<leftarrow> (if filter (\<lambda>c. a_account_category_id a = Some (ac_id c))
                    (account_categories d) = []
              then [None]
              else map Some (filter (\<lambda>c. a_account_category_id a = Some (ac_id c))
                               (account_categories d))),
        balance \<leftarrow> (if filter (\<lambda>b. ab_account_id b = a_id a \<and> ab_organization_id b = orgId)
                          (account_balances d) = []
                    then [0]
                    else map ab_balance
                           (filter (\<lambda>b. ab_account_id b = a_id a \<and> ab_organization_id b = orgId)
                              (account_balances d)))]"
proof -
  let ?f = "\<lambda>r. (tb_id (select_account r), tb_normalBalance (select_account r),
              tb_balance (select_account r))"
  let ?G = "\<lambda>a t. [(a, t, c, b).
                c \<leftarrow> left_join (filter (\<lambda>c. a_account_category_id a = Some (ac_id c))
                           (account_categories d)),
                b \<leftarrow> left_join (filter (\<lambda>b. ab_account_id b = a_id a
                                    \<and> ab_organization_id b = a_organization_id a)
                           (account_balances d)),
                a_organization_id a = orgId]"
  let ?S = "\<lambda>a t. [(a_id a, at_normal_balance t, balance).
        c \<leftarrow> (if filter (\<lambda>c. a_account_category_id a = Some (ac_id c))
                    (account_categories d) = []
              then [None]
              else map Some (filter (\<lambda>c. a_account_category_id a = Some (ac_id c))
                               (account_categories d))),
        balance \<leftarrow> (if filter (\<lambda>b. ab_account_id b = a_id a \<and> ab_organization_id b = orgId)
                          (account_balances d) = []
                    then [0]
                    else map ab_balance
                           (filter (\<lambda>b. ab_account_id b = a_id a \<and> ab_organization_id b = orgId)
                              (account_balances d)))]"
  have q: "trial_balance_query d orgId =
      concat (map (\<lambda>a. concat (map (\<lambda>t. if a_account_type_id a = at_id t
        then ?G a t else []) (account_types d))) (accounts d))"
    unfolding trial_balance_query_def accounts_join_types_def by (rule join_rows)
  have in_org: "map ?f (?G a t) = ?S a t" if "a_organization_id a = orgId" for a t
    using that by (simp add: left_join_def select_account_def map_concat comp_def)
  have out: "map ?f (?G a t) = []" if "a_organization_id a \<noteq> orgId" for a t
    using that by simp
  have "map ?f (trial_balance_query d orgId) =
      concat (map (\<lambda>a. concat (map (\<lambda>t. if a_account_type_id a = at_id t
        then map ?f (?G a t) else []) (account_types d))) (accounts d))"
    unfolding q by (rule map_join)
  also have "\<dots> = concat (map (\<lambda>a. if a_organization_id a = orgId
        then concat (map (\<lambda>t. if a_account_type_id a = at_id t then ?S a t else [])
               (account_types d))
        else []) (accounts d))"
  proof (rule arg_cong [where f = concat], rule map_cong [OF refl])
    fix a
    show "concat (map (\<lambda>t. if a_account_type_id a = at_id t
        then map ?f (?G a t) else []) (account_types d))
      = (if a_organization_id a = orgId
        then concat (map (\<lambda>t. if a_account_type_id a = at_id t then ?S a t else [])
               (account_types d))
        else [])"
    proof (cases "a_organization_id a = orgId")
      case True
      show ?thesis unfolding in_org [OF True] by (simp only: True simp_thms if_True)
    next
      case False
      show ?thesis unfolding out [OF False] concat_if_nil by (simp only: False if_False)
    qed
  qed
  finally show ?thesis .
qed

text \<open>
  C7. The trial balance succeeds, and its listing is tied to the tables in both
  directions. Every listed account is an account of the organization with its type, and
  its balance is 0 when the account has no balance row of the organization and the
  balance of such a row otherwise; every account of the organization with a type is
  listed, once for each of its balance rows; and up to order the listing is the join of
  the accounts of the organization with their types, their categories and their balance
  rows, so no row is listed more often than the join has it. A listed account of normal
  balance \<open>'debit'\<close> has its balance in \<open>debitBalance\<close> when the balance is at least 0 and
  the absolute value in \<open>creditBalance\<close> otherwise; with any other normal balance the
  columns are exchanged; the other column is 0. The grand totals are the sums of the two
  columns over the listed accounts and the difference is the absolute value of theirs.
\<close>

theorem trial_balance_columns:
  "\<exists>data. trial_balance d orgId = Success 200 data
     \<and> map (\<lambda>acc. acc\<lparr>tb_debitBalance := 0, tb_creditBalance := 0\<rparr>) (tbd_accounts data)
         = map select_account (trial_balance_query d orgId)
     \<and> (\<forall>acc \<in> set (tbd_accounts data).
           tb_debitBalance acc =
             (if tb_normalBalance acc = ''debit''
              then (if 0 \<le> tb_balance acc then tb_balance acc else 0)
              else (if 0 \<le> tb_balance acc then 0 else \<bar>tb_balance acc\<bar>))
           \<and> tb_creditBalance acc =
             (if tb_normalBalance acc = ''debit''
              then (if 0 \<le> tb_balance acc then 0 else \<bar>tb_balance acc\<bar>)
              else (if 0 \<le> tb_balance acc then tb_balance acc else 0)))
     \<and> (\<forall>a \<in> set (accounts d). \<forall>t \<in> set (account_types d).
           a_organization_id a = orgId \<and> a_account_type_id a = at_id t \<longrightarrow>
           (if filter (\<lambda>b. ab_account_id b = a_id a \<and> ab_organization_id b = orgId)
                 (account_balances d) = []
            then \<exists>acc \<in> set (tbd_accounts data).
                   tb_id acc = a_id a \<and> tb_normalBalance acc = at_normal_balance t
                   \<and> tb_balance acc = 0
            else \<forall>b \<in> set (account_balances d).
                   ab_account_id b = a_id a \<and> ab_organization_id b = orgId \<longrightarrow>
                   (\<exists>acc \<in> set (tbd_accounts data).
                      tb_id acc = a_id a \<and> tb_normalBalance acc = at_normal_balance t
                      \<and> tb_balance acc = ab_balance b)))
     \<and> (\<forall>acc \<in> set (tbd_accounts data).
           \<exists>a \<in> set (accounts d). \<exists>t \<in> set (account_types d).
             a_organization_id a = orgId \<and> a_account_type_id a = at_id t
             \<and> tb_id acc = a_id a \<and> tb_normalBalance acc = at_normal_balance t
             \<and> (if filter (\<lambda>b. ab_account_id b = a_id a \<and> ab_organization_id b = orgId)
                      (account_balances d) = []
                then tb_balance acc = 0
                else \<exists>b \<in> set (account_balances d).
                       ab_account_id b = a_id a \<and> ab_organization_id b = orgId
                       \<and> tb_balance acc = ab_balance b))
     \<and> (\<forall>x. count_list (map (\<lambda>acc. (tb_id acc, tb_normalBalance acc, tb_balance acc))
                          (tbd_accounts data)) x
            = count_list
                [(a_id a, at_normal_balance t, balance).
                   a \<leftarrow> accounts d, a_organization_id a = orgId,
                   t \<leftarrow> account_types d, a_account_type_id a = at_id t,
                   c \<leftarrow> (if filter (\<lambda>c. a_account_category_id a = Some (ac_id c))
                               (account_categories d) = []
                         then [None]
                         else map Some (filter (\<lambda>c. a_account_category_id a = Some (ac_id c))
                                          (account_categories d))),
                   balance \<leftarrow> (if filter (\<lambda>b. ab_account_id b = a_id a
                                                \<and> ab_organization_id b = orgId)
                                     (account_balances d) = []
                               then [0]
                               else map ab_balance
                                      (filter (\<lambda>b. ab_account_id b = a_id a
                                                     \<and> ab_organization_id b = orgId)
                                         (account_balances d)))] x)
     \<and> tbd_totalDebits data = sum_list (map tb_debitBalance (tbd_accounts data))
     \<and> tbd_totalCredits data = sum_list (map tb_creditBalance (tbd_accounts data))
     \<and> tbd_difference data = \<bar>tbd_totalDebits data - tbd_totalCredits data\<bar>"
proof -
  define column where "column = (\<lambda>r.
      (select_account r)
         \<lparr>tb_debitBalance :=
            (if tb_normalBalance (select_account r) = ''debit''
             then (if 0 \<le> tb_balance (select_account r) then tb_balance (select_account r) else 0)
             else (if 0 \<le> tb_balance (select_account r) then 0
                   else \<bar>tb_balance (select_account r)\<bar>)),
          tb_creditBalance :=
            (if tb_normalBalance (select_account r) = ''debit''
             then (if 0 \<le> tb_balance (select_account r) then 0
                   else \<bar>tb_balance (select_account r)\<bar>)
             else (if 0 \<le> tb_balance (select_account r) then tb_balance (select_account r)
                   else 0))\<rparr>)"
  define accs where "accs = map column (trial_balance_query d orgId)"
  have z: "tb_debitBalance (select_account r) = 0" "tb_creditBalance (select_account r) = 0" for r
    by (cases r, simp add: select_account_def)+
  have sel: "(column r)\<lparr>tb_debitBalance := 0, tb_creditBalance := 0\<rparr> = select_account r" for r
    using z [of r] by (simp add: column_def)
  have v: "trial_balance d orgId =
     Success 200
       \<lparr>tbd_accounts = accs,
        tbd_totalDebits = sum_list (map tb_debitBalance accs),
        tbd_totalCredits = sum_list (map tb_creditBalance accs),
        tbd_difference = \<bar>sum_list (map tb_debitBalance accs) - sum_list (map tb_creditBalance accs)\<bar>\<rparr>"
    unfolding trial_balance_value accs_def column_def by (simp add: comp_def)
  have rows: "map (\<lambda>acc. acc\<lparr>tb_debitBalance := 0, tb_creditBalance := 0\<rparr>) accs
         = map select_account (trial_balance_query d orgId)"
    by (simp add: accs_def comp_def sel)
  have cols: "\<forall>acc \<in> set accs.
           tb_debitBalance acc =
             (if tb_normalBalance acc = ''debit''
              then (if 0 \<le> tb_balance acc then tb_balance acc else 0)
              else (if 0 \<le> tb_balance acc then 0 else \<bar>tb_balance acc\<bar>))
           \<and> tb_creditBalance acc =
             (if tb_normalBalance acc = ''debit''
              then (if 0 \<le> tb_balance acc then 0 else \<bar>tb_balance acc\<bar>)
              else (if 0 \<le> tb_balance acc then tb_balance acc else 0))"
    by (auto simp: accs_def column_def)
  have listed: "\<exists>acc \<in> set accs. tb_id acc = a_id a \<and> tb_normalBalance acc = at_normal_balance t
        \<and> tb_balance acc = (case b of None \<Rightarrow> 0 | Some row \<Rightarrow> ab_balance row)"
    if "a \<in> set (accounts d)" "t \<in> set (account_types d)" "a_organization_id a = orgId"
      "a_account_type_id a = at_id t"
      "b \<in> set (left_join (filter (\<lambda>b. ab_account_id b = a_id a
                                        \<and> ab_organization_id b = a_organization_id a)
                               (account_balances d)))" for a t b
  proof -
    obtain c where "c \<in> set (left_join (filter (\<lambda>c. a_account_category_id a = Some (ac_id c))
                               (account_categories d)))"
      using left_join_nonempty by blast
    with that have "(a, t, c, b) \<in> set (trial_balance_query d orgId)"
      by (simp add: set_trial_balance_query set_accounts_join_types)
    then have "column (a, t, c, b) \<in> set accs"
      by (simp add: accs_def)
    moreover have "tb_id (column (a, t, c, b)) = a_id a"
      "tb_normalBalance (column (a, t, c, b)) = at_normal_balance t"
      "tb_balance (column (a, t, c, b)) = (case b of None \<Rightarrow> 0 | Some row \<Rightarrow> ab_balance row)"
      by (simp_all add: column_def select_account_def)
    ultimately show ?thesis by blast
  qed
  have cover: "\<forall>a \<in> set (accounts d). \<forall>t \<in> set (account_types d).
           a_organization_id a = orgId \<and> a_account_type_id a = at_id t \<longrightarrow>
           (if filter (\<lambda>b. ab_account_id b = a_id a \<and> ab_organization_id b = orgId)
                 (account_balances d) = []
            then \<exists>acc \<in> set accs.
                   tb_id acc = a_id a \<and> tb_normalBalance acc = at_normal_balance t
                   \<and> tb_balance acc = 0
            else \<forall>b \<in> set (account_balances d).
                   ab_account_id b = a_id a \<and> ab_organization_id b = orgId \<longrightarrow>
                   (\<exists>acc \<in> set accs.
                      tb_id acc = a_id a \<and> tb_normalBalance acc = at_normal_balance t
                      \<and> tb_balance acc = ab_balance b))"
  proof (intro ballI impI)
    fix a t
    assume a: "a \<in> set (accounts d)" and t: "t \<in> set (account_types d)"
      and h: "a_organization_id a = orgId \<and> a_account_type_id a = at_id t"
    let ?rows = "filter (\<lambda>b. ab_account_id b = a_id a \<and> ab_organization_id b = orgId)
                 (account_balances d)"
    show "if ?rows = []
            then \<exists>acc \<in> set accs.
                   tb_id acc = a_id a \<and> tb_normalBalance acc = at_normal_balance t
                   \<and> tb_balance acc = 0
            else \<forall>b \<in> set (account_balances d).
                   ab_account_id b = a_id a \<and> ab_organization_id b = orgId \<longrightarrow>
                   (\<exists>acc \<in> set accs.
                      tb_id acc = a_id a \<and> tb_normalBalance acc = at_normal_balance t
                      \<and> tb_balance acc = ab_balance b)"
    proof (cases "?rows = []")
      case True
      with h have "None \<in> set (left_join (filter (\<lambda>b. ab_account_id b = a_id a
                                        \<and> ab_organization_id b = a_organization_id a)
                               (account_balances d)))"
        by (simp add: set_left_join)
      from listed [OF a t _ _ this] h True show ?thesis by simp
    next
      case False
      have "\<exists>acc \<in> set accs.
                      tb_id acc = a_id a \<and> tb_normalBalance acc = at_normal_balance t
                      \<and> tb_balance acc = ab_balance b"
        if "b \<in> set (account_balances d)" "ab_account_id b = a_id a \<and> ab_organization_id b = orgId"
        for b
      proof -
        from that h False have "Some b \<in> set (left_join (filter (\<lambda>b. ab_account_id b = a_id a
                                        \<and> ab_organization_id b = a_organization_id a)
                               (account_balances d)))"
          by (simp add: set_left_join)
        from listed [OF a t _ _ this] h show ?thesis by simp
      qed
      with False show ?thesis by simp
    qed
  qed
  have origin: "\<forall>acc \<in> set accs.
           \<exists>a \<in> set (accounts d). \<exists>t \<in> set (account_types d).
             a_organization_id a = orgId \<and> a_account_type_id a = at_id t
             \<and> tb_id acc = a_id a \<and> tb_normalBalance acc = at_normal_balance t
             \<and> (if filter (\<lambda>b. ab_account_id b = a_id a \<and> ab_organization_id b = orgId)
                      (account_balances d) = []
                then tb_balance acc = 0
                else \<exists>b \<in> set (account_balances d).
                       ab_account_id b = a_id a \<and> ab_organization_id b = orgId
                       \<and> tb_balance acc = ab_balance b)"
  proof
    fix acc
    assume "acc \<in> set accs"
    then obtain a t c b where r: "(a, t, c, b) \<in> set (trial_balance_query d orgId)"
      and acc: "acc = column (a, t, c, b)"
      by (auto simp: accs_def)
    from r have a: "a \<in> set (accounts d)" "t \<in> set (account_types d)"
      "a_account_type_id a = at_id t" "a_organization_id a = orgId"
      and b: "b \<in> set (left_join (filter (\<lambda>b. ab_account_id b = a_id a
                                              \<and> ab_organization_id b = orgId)
                                    (account_balances d)))"
      by (auto simp: set_trial_balance_query set_accounts_join_types)
    have w: "tb_id acc = a_id a" "tb_normalBalance acc = at_normal_balance t"
      "tb_balance acc = (case b of None \<Rightarrow> 0 | Some row \<Rightarrow> ab_balance row)"
      by (simp_all add: acc column_def select_account_def)
    have "if filter (\<lambda>b. ab_account_id b = a_id a \<and> ab_organization_id b = orgId)
                      (account_balances d) = []
          then tb_balance acc = 0
          else \<exists>b \<in> set (account_balances d).
                 ab_account_id b = a_id a \<and> ab_organization_id b = orgId
                 \<and> tb_balance acc = ab_balance b"
      using b w(3) by (auto simp: set_left_join split: if_splits)
    with a w(1,2) show "\<exists>a \<in> set (accounts d). \<exists>t \<in> set (account_types d).
             a_organization_id a = orgId \<and> a_account_type_id a = at_id t
             \<and> tb_id acc = a_id a \<and> tb_normalBalance acc = at_normal_balance t
             \<and> (if filter (\<lambda>b. ab_account_id b = a_id a \<and> ab_organization_id b = orgId)
                      (account_balances d) = []
                then tb_balance acc = 0
                else \<exists>b \<in> set (account_balances d).
                       ab_account_id b = a_id a \<and> ab_organization_id b = orgId
                       \<and> tb_balance acc = ab_balance b)"
      by blast
  qed
  have proj: "tb_id (column r) = tb_id (select_account r)"
    "tb_normalBalance (column r) = tb_normalBalance (select_account r)"
    "tb_balance (column r) = tb_balance (select_account r)" for r
    by (simp_all add: column_def)
  have join: "map (\<lambda>acc. (tb_id acc, tb_normalBalance acc, tb_balance acc)) accs
      = [(a_id a, at_normal_balance t, balance).
                   a \<leftarrow> accounts d, a_organization_id a = orgId,
                   t \<leftarrow> account_types d, a_account_type_id a = at_id t,
                   c \<leftarrow> (if filter (\<lambda>c. a_account_category_id a = Some (ac_id c))
                               (account_categories d) = []
                         then [None]
                         else map Some (filter (\<lambda>c. a_account_category_id a = Some (ac_id c))
                                          (account_categories d))),
                   balance \<leftarrow> (if filter (\<lambda>b. ab_account_id b = a_id a
                                                \<and> ab_organization_id b = orgId)
                                     (account_balances d) = []
                               then [0]
                               else map ab_balance
                                      (filter (\<lambda>b. ab_account_id b = a_id a
                                                     \<and> ab_organization_id b = orgId)
                                         (account_balances d)))]"
    unfolding accs_def map_map comp_def proj by (rule trial_balance_query_rows)
  show ?thesis
    unfolding v
    apply (rule exI, rule conjI, rule refl)
    apply (simp only: trial_balance_data.simps)
    apply (intro conjI allI)
    using rows apply assumption
    using cols apply assumption
    using cover apply assumption
    using origin apply assumption
    using join apply (simp only:)
    by (rule refl)+
qed



lemmas report_defs =
  trial_balance_def trial_balance_query_def select_account_def left_join_def
  income_statement_def statement_side_def accounts_of_type_def period_transactions_def
  add_balances_def revenue_amount_def expense_amount_def period_total_def
  lines_join_entries_def accounts_join_types_def

theorem trial_balance_columns_witness:
  "\<exists>data. trial_balance overdrawn_db 1 = Success 200 data
     \<and> map (\<lambda>acc. (tb_id acc, tb_normalBalance acc, tb_balance acc,
                    tb_debitBalance acc, tb_creditBalance acc)) (tbd_accounts data)
         = [(1, ''debit'', - 20, 0, 20), (2, ''credit'', 500, 0, 500), (3, ''debit'', 0, 0, 0)]
     \<and> tbd_totalDebits data = 0 \<and> tbd_totalCredits data = 520 \<and> tbd_difference data = 520
     \<and> reported_accounts (trial_balance overdrawn_db 2) = [(7, ''debit'', 0, 0, 0)]"
proof -
  have o: "reported_accounts (trial_balance overdrawn_db 2) = [(7, ''debit'', 0, 0, 0)]"
    by (simp add: overdrawn_db_def example_defs report_defs reported_accounts_def)
  have "map (\<lambda>acc. (tb_id acc, tb_normalBalance acc, tb_balance acc,
                    tb_debitBalance acc, tb_creditBalance acc))
          (map select_account (trial_balance_query overdrawn_db 1))
        = [(1, ''debit'', - 20, 0, 0), (2, ''credit'', 500, 0, 0), (3, ''debit'', 0, 0, 0)]"
    by (simp add: overdrawn_db_def example_defs report_defs)
  then have e: "trial_balance overdrawn_db 1 = Success 200 data \<Longrightarrow>
      map (\<lambda>acc. (tb_id acc, tb_normalBalance acc, tb_balance acc,
                    tb_debitBalance acc, tb_creditBalance acc)) (tbd_accounts data)
         = [(1, ''debit'', - 20, 0, 20), (2, ''credit'', 500, 0, 500), (3, ''debit'', 0, 0, 0)]
      \<and> tbd_totalDebits data = 0 \<and> tbd_totalCredits data = 520" for data
    by (auto simp: overdrawn_db_def example_defs report_defs)
  from trial_balance_columns [of overdrawn_db 1] obtain data where
    "trial_balance overdrawn_db 1 = Success 200 data"
    "tbd_difference data = \<bar>tbd_totalDebits data - tbd_totalCredits data\<bar>"
    by blast
  with e [of data] o show ?thesis by simp
qed

lemma foldl_add_sum_list:
  "foldl (\<lambda>total x. total + f x) a xs = a + sum_list (map f xs)"
  for a :: rat
  by (induction xs arbitrary: a) (simp_all add: add.assoc)

lemma sum_by_account_lookup:
  "sum_by_account amount rows byAccount k =
     (if \<exists>r \<in> set rows. jl_account_id (fst r) = k
      then Some ((case byAccount k of None \<Rightarrow> 0 | Some v \<Rightarrow> v)
                 + sum_list (map (\<lambda>r. amount (fst r))
                              (filter (\<lambda>r. jl_account_id (fst r) = k) rows)))
      else byAccount k)"
proof (induction rows arbitrary: byAccount)
  case Nil
  show ?case by simp
next
  case (Cons r rows)
  show ?case
    by (simp add: Cons.IH add.assoc)
qed

lemma sum_by_account_empty:
  "(case sum_by_account amount rows Map.empty k of None \<Rightarrow> 0 | Some v \<Rightarrow> v) =
     sum_list (map (\<lambda>r. amount (fst r)) (filter (\<lambda>r. jl_account_id (fst r) = k) rows))"
proof (cases "\<exists>r \<in> set rows. jl_account_id (fst r) = k")
  case True
  then show ?thesis by (simp add: sum_by_account_lookup)
next
  case False
  then have "filter (\<lambda>r. jl_account_id (fst r) = k) rows = []"
    by (simp add: filter_empty_conv)
  with False show ?thesis by (simp add: sum_by_account_lookup)
qed

lemma period_transactions_of_account:
  "k \<in> set accountIds \<Longrightarrow>
   sum_list (map (\<lambda>r. amount (fst r))
      (filter (\<lambda>r. jl_account_id (fst r) = k)
         (period_transactions d orgId accountIds startDate endDate)))
   = period_total d orgId amount startDate endDate k"
proof -
  assume k: "k \<in> set accountIds"
  have "filter (\<lambda>r. jl_account_id (fst r) = k)
         (period_transactions d orgId accountIds startDate endDate)
     = filter (\<lambda>(l, e). jl_account_id l = k \<and> je_organization_id e = orgId
                         \<and> je_status e = ''posted''
                         \<and> startDate \<le> je_date e \<and> je_date e \<le> endDate)
          (lines_join_entries d)"
    unfolding period_transactions_def filter_filter
    by (rule filter_cong) (use k in auto)
  then show ?thesis
    by (simp add: period_total_def case_prod_unfold)
qed

lemma statement_side_value:
  "statement_side d orgId typeName amount startDate endDate =
     (map (\<lambda>(a, t, c).
            \<lparr>ia_id = a_id a, ia_code = a_code a, ia_name = a_name a,
             ia_categoryName = map_option ac_name c,
             ia_balance = period_total d orgId amount startDate endDate (a_id a)\<rparr>)
        (accounts_of_type d orgId typeName),
      sum_list (map (\<lambda>(a, t, c). period_total d orgId amount startDate endDate (a_id a))
        (accounts_of_type d orgId typeName)))"
proof -
  let ?rows = "accounts_of_type d orgId typeName"
  let ?ids = "map (\<lambda>(a, t, c). a_id a) ?rows"
  let ?by = "sum_by_account amount (period_transactions d orgId ?ids startDate endDate) Map.empty"
  have bal: "(case ?by (a_id a) of None \<Rightarrow> 0 | Some v \<Rightarrow> v)
      = period_total d orgId amount startDate endDate (a_id a)"
    if "(a, t, c) \<in> set ?rows" for a t c
  proof -
    from that have "a_id a \<in> set ?ids" by force
    then show ?thesis
      by (simp only: sum_by_account_empty period_transactions_of_account)
  qed
  have accs: "add_balances ?by ?rows =
      map (\<lambda>(a, t, c).
            \<lparr>ia_id = a_id a, ia_code = a_code a, ia_name = a_name a,
             ia_categoryName = map_option ac_name c,
             ia_balance = period_total d orgId amount startDate endDate (a_id a)\<rparr>) ?rows"
    unfolding add_balances_def
    by (rule map_cong) (use bal in auto)
  show ?thesis
    unfolding statement_side_def Let_def accs foldl_add_sum_list
    by (simp add: comp_def case_prod_unfold)
qed

lemma set_accounts_of_type:
  "(a, t, c) \<in> set (accounts_of_type d orgId typeName) \<longleftrightarrow>
     a \<in> set (accounts d) \<and> t \<in> set (account_types d) \<and> a_account_type_id a = at_id t
     \<and> a_organization_id a = orgId \<and> at_name t = typeName
     \<and> c \<in> set (left_join (filter (\<lambda>c. a_account_category_id a = Some (ac_id c))
                               (account_categories d)))"
  by (auto simp: accounts_of_type_def set_accounts_join_types)


lemma statement_side_total:
  "snd (statement_side d orgId typeName amount startDate endDate) =
     sum_list (map ia_balance (fst (statement_side d orgId typeName amount startDate endDate)))"
  by (simp add: statement_side_value comp_def case_prod_unfold)

lemma statement_side_covers:
  assumes "a \<in> set (accounts d)" and "t \<in> set (account_types d)"
    and "a_organization_id a = orgId" and "a_account_type_id a = at_id t"
    and "at_name t = typeName"
  shows "\<exists>acc \<in> set (fst (statement_side d orgId typeName amount startDate endDate)).
           ia_id acc = a_id a
           \<and> ia_balance acc = period_total d orgId amount startDate endDate (a_id a)"
proof -
  obtain c where "c \<in> set (left_join (filter (\<lambda>c. a_account_category_id a = Some (ac_id c))
                               (account_categories d)))"
    using left_join_nonempty by blast
  with assms have "(a, t, c) \<in> set (accounts_of_type d orgId typeName)"
    by (simp add: set_accounts_of_type)
  then show ?thesis
    unfolding statement_side_value by force
qed

lemma statement_side_listed:
  assumes "acc \<in> set (fst (statement_side d orgId typeName amount startDate endDate))"
  shows "\<exists>a \<in> set (accounts d). \<exists>t \<in> set (account_types d).
           a_organization_id a = orgId \<and> a_account_type_id a = at_id t \<and> at_name t = typeName
           \<and> ia_id acc = a_id a
           \<and> ia_balance acc = period_total d orgId amount startDate endDate (a_id a)"
proof -
  from assms obtain a t c where "(a, t, c) \<in> set (accounts_of_type d orgId typeName)"
    and "acc = \<lparr>ia_id = a_id a, ia_code = a_code a, ia_name = a_name a,
             ia_categoryName = map_option ac_name c,
             ia_balance = period_total d orgId amount startDate endDate (a_id a)\<rparr>"
    unfolding statement_side_value by auto
  then show ?thesis
    by (auto simp: set_accounts_of_type)
qed

lemma income_db_value:
  "income_db = example_db
     \<lparr>account_balances :=
        [\<lparr>ab_account_id = 1, ab_organization_id = 1, ab_balance = 600\<rparr>,
         \<lparr>ab_account_id = 2, ab_organization_id = 1, ab_balance = 680\<rparr>,
         \<lparr>ab_account_id = 7, ab_organization_id = 2, ab_balance = 40\<rparr>],
      journal_entries :=
        [\<lparr>je_id = 1, je_organization_id = 1, je_date = 10, je_reference = ''JE'',
          je_description = None, je_status = ''posted''\<rparr>,
         \<lparr>je_id = 2, je_organization_id = 1, je_date = 20, je_reference = ''JE'',
          je_description = None, je_status = ''posted''\<rparr>,
         \<lparr>je_id = 3, je_organization_id = 1, je_date = 30, je_reference = ''JE'',
          je_description = None, je_status = ''posted''\<rparr>],
      journal_entry_lines :=
        [\<lparr>jl_id = 1, jl_journal_entry_id = 1, jl_account_id = 1, jl_description = None,
          jl_debit_amount = 100, jl_credit_amount = 0, jl_tax_rate = None, jl_tax_amount = None\<rparr>,
         \<lparr>jl_id = 2, jl_journal_entry_id = 1, jl_account_id = 2, jl_description = None,
          jl_debit_amount = 0, jl_credit_amount = 100, jl_tax_rate = None, jl_tax_amount = None\<rparr>,
         \<lparr>jl_id = 3, jl_journal_entry_id = 2, jl_account_id = 2, jl_description = None,
          jl_debit_amount = 30, jl_credit_amount = 80, jl_tax_rate = None, jl_tax_amount = None\<rparr>,
         \<lparr>jl_id = 4, jl_journal_entry_id = 2, jl_account_id = 3, jl_description = None,
          jl_debit_amount = 70, jl_credit_amount = 20, jl_tax_rate = None, jl_tax_amount = None\<rparr>,
         \<lparr>jl_id = 5, jl_journal_entry_id = 3, jl_account_id = 3, jl_description = None,
          jl_debit_amount = 30, jl_credit_amount = 0, jl_tax_rate = None, jl_tax_amount = None\<rparr>,
         \<lparr>jl_id = 6, jl_journal_entry_id = 3, jl_account_id = 2, jl_description = None,
          jl_debit_amount = 0, jl_credit_amount = 30, jl_tax_rate = None, jl_tax_amount = None\<rparr>]\<rparr>"
  by (simp add: income_db_def example_defs posting_defs)

lemma income_db2_value:
  "income_db2 = example_db
     \<lparr>account_balances :=
        [\<lparr>ab_account_id = 1, ab_organization_id = 1, ab_balance = 600\<rparr>,
         \<lparr>ab_account_id = 2, ab_organization_id = 1, ab_balance = 680\<rparr>,
         \<lparr>ab_account_id = 7, ab_organization_id = 2, ab_balance = 80\<rparr>],
      journal_entries :=
        [\<lparr>je_id = 1, je_organization_id = 1, je_date = 10, je_reference = ''JE'',
          je_description = None, je_status = ''posted''\<rparr>,
         \<lparr>je_id = 2, je_organization_id = 1, je_date = 20, je_reference = ''JE'',
          je_description = None, je_status = ''posted''\<rparr>,
         \<lparr>je_id = 3, je_organization_id = 1, je_date = 30, je_reference = ''JE'',
          je_description = None, je_status = ''posted''\<rparr>,
         \<lparr>je_id = 4, je_organization_id = 2, je_date = 15, je_reference = ''JE'',
          je_description = None, je_status = ''posted''\<rparr>],
      journal_entry_lines :=
        [\<lparr>jl_id = 1, jl_journal_entry_id = 1, jl_account_id = 1, jl_description = None,
          jl_debit_amount = 100, jl_credit_amount = 0, jl_tax_rate = None, jl_tax_amount = None\<rparr>,
         \<lparr>jl_id = 2, jl_journal_entry_id = 1, jl_account_id = 2, jl_description = None,
          jl_debit_amount = 0, jl_credit_amount = 100, jl_tax_rate = None, jl_tax_amount = None\<rparr>,
         \<lparr>jl_id = 3, jl_journal_entry_id = 2, jl_account_id = 2, jl_description = None,
          jl_debit_amount = 30, jl_credit_amount = 80, jl_tax_rate = None, jl_tax_amount = None\<rparr>,
         \<lparr>jl_id = 4, jl_journal_entry_id = 2, jl_account_id = 3, jl_description = None,
          jl_debit_amount = 70, jl_credit_amount = 20, jl_tax_rate = None, jl_tax_amount = None\<rparr>,
         \<lparr>jl_id = 5, jl_journal_entry_id = 3, jl_account_id = 3, jl_description = None,
          jl_debit_amount = 30, jl_credit_amount = 0, jl_tax_rate = None, jl_tax_amount = None\<rparr>,
         \<lparr>jl_id = 6, jl_journal_entry_id = 3, jl_account_id = 2, jl_description = None,
          jl_debit_amount = 0, jl_credit_amount = 30, jl_tax_rate = None, jl_tax_amount = None\<rparr>,
         \<lparr>jl_id = 7, jl_journal_entry_id = 4, jl_account_id = 7, jl_description = None,
          jl_debit_amount = 40, jl_credit_amount = 0, jl_tax_rate = None, jl_tax_amount = None\<rparr>,
         \<lparr>jl_id = 8, jl_journal_entry_id = 4, jl_account_id = 2, jl_description = None,
          jl_debit_amount = 0, jl_credit_amount = 40, jl_tax_rate = None, jl_tax_amount = None\<rparr>]\<rparr>"
  by (simp add: income_db2_def income_db_value)
     (simp add: example_defs posting_defs)

text \<open>
  C8. With both dates given the income statement succeeds. It lists every account of the
  organization whose type is named \<open>'Revenue'\<close>, and only those, each with the sum of
  \<open>creditAmount - debitAmount\<close> over its lines in posted entries of the organization
  dated from \<open>startDate\<close> to \<open>endDate\<close> inclusive; likewise every account whose type is
  named \<open>'Expense'\<close>, and only those, with the sum of \<open>debitAmount - creditAmount\<close>. The
  sums are spelled out over the two tables. The two totals are the sums of these
  balances, so accounts of other types add nothing, and \<open>netIncome\<close> is the revenue
  total minus the expense total. A line of the account in an entry of another
  organization is not counted.
\<close>

theorem income_statement_totals:
  "\<exists>data. income_statement d orgId (Some startDate) (Some endDate) = Success 200 data
     \<and> (\<forall>a \<in> set (accounts d). \<forall>t \<in> set (account_types d).
           a_organization_id a = orgId \<and> a_account_type_id a = at_id t \<and> at_name t = ''Revenue''
           \<longrightarrow> (\<exists>acc \<in> set (isd_revenueAccounts data). ia_id acc = a_id a))
     \<and> (\<forall>acc \<in> set (isd_revenueAccounts data).
           (\<exists>a \<in> set (accounts d). \<exists>t \<in> set (account_types d).
              a_organization_id a = orgId \<and> a_account_type_id a = at_id t
              \<and> at_name t = ''Revenue'' \<and> ia_id acc = a_id a)
           \<and> ia_balance acc =
               sum_list (map (\<lambda>(l, e). jl_credit_amount l - jl_debit_amount l)
                 (filter (\<lambda>(l, e). jl_account_id l = ia_id acc \<and> je_organization_id e = orgId
                                   \<and> je_status e = ''posted''
                                   \<and> startDate \<le> je_date e \<and> je_date e \<le> endDate)
                    [(l, e). l \<leftarrow> journal_entry_lines d, e \<leftarrow> journal_entries d,
                             jl_journal_entry_id l = je_id e])))
     \<and> (\<forall>a \<in> set (accounts d). \<forall>t \<in> set (account_types d).
           a_organization_id a = orgId \<and> a_account_type_id a = at_id t \<and> at_name t = ''Expense''
           \<longrightarrow> (\<exists>acc \<in> set (isd_expenseAccounts data). ia_id acc = a_id a))
     \<and> (\<forall>acc \<in> set (isd_expenseAccounts data).
           (\<exists>a \<in> set (accounts d). \<exists>t \<in> set (account_types d).
              a_organization_id a = orgId \<and> a_account_type_id a = at_id t
              \<and> at_name t = ''Expense'' \<and> ia_id acc = a_id a)
           \<and> ia_balance acc =
               sum_list (map (\<lambda>(l, e). jl_debit_amount l - jl_credit_amount l)
                 (filter (\<lambda>(l, e). jl_account_id l = ia_id acc \<and> je_organization_id e = orgId
                                   \<and> je_status e = ''posted''
                                   \<and> startDate \<le> je_date e \<and> je_date e \<le> endDate)
                    [(l, e). l \<leftarrow> journal_entry_lines d, e \<leftarrow> journal_entries d,
                             jl_journal_entry_id l = je_id e])))
     \<and> isd_totalRevenue data = sum_list (map ia_balance (isd_revenueAccounts data))
     \<and> isd_totalExpenses data = sum_list (map ia_balance (isd_expenseAccounts data))
     \<and> isd_netIncome data = isd_totalRevenue data - isd_totalExpenses data"
proof -
  let ?rev = "statement_side d orgId ''Revenue'' revenue_amount startDate endDate"
  let ?exp = "statement_side d orgId ''Expense'' expense_amount startDate endDate"
  have v: "income_statement d orgId (Some startDate) (Some endDate) =
      Success 200
        \<lparr>isd_revenueAccounts = fst ?rev, isd_totalRevenue = snd ?rev,
         isd_expenseAccounts = fst ?exp, isd_totalExpenses = snd ?exp,
         isd_netIncome = snd ?rev - snd ?exp\<rparr>"
    by (simp add: income_statement_def case_prod_unfold)
  have r1: "\<forall>a \<in> set (accounts d). \<forall>t \<in> set (account_types d).
           a_organization_id a = orgId \<and> a_account_type_id a = at_id t \<and> at_name t = ''Revenue''
           \<longrightarrow> (\<exists>acc \<in> set (fst ?rev). ia_id acc = a_id a)"
    using statement_side_covers [of _ d _ orgId "''Revenue''" revenue_amount startDate endDate]
    by blast
  have r2: "\<forall>acc \<in> set (fst ?rev).
           (\<exists>a \<in> set (accounts d). \<exists>t \<in> set (account_types d).
              a_organization_id a = orgId \<and> a_account_type_id a = at_id t
              \<and> at_name t = ''Revenue'' \<and> ia_id acc = a_id a)
           \<and> ia_balance acc =
               sum_list (map (\<lambda>(l, e). jl_credit_amount l - jl_debit_amount l)
                 (filter (\<lambda>(l, e). jl_account_id l = ia_id acc \<and> je_organization_id e = orgId
                                   \<and> je_status e = ''posted''
                                   \<and> startDate \<le> je_date e \<and> je_date e \<le> endDate)
                    [(l, e). l \<leftarrow> journal_entry_lines d, e \<leftarrow> journal_entries d,
                             jl_journal_entry_id l = je_id e]))"
  proof
    fix acc
    assume "acc \<in> set (fst ?rev)"
    from statement_side_listed [OF this] obtain a t where
      "a \<in> set (accounts d)" "t \<in> set (account_types d)"
      "a_organization_id a = orgId" "a_account_type_id a = at_id t" "at_name t = ''Revenue''"
      "ia_id acc = a_id a"
      "ia_balance acc = period_total d orgId revenue_amount startDate endDate (a_id a)"
      by blast
    then show "(\<exists>a \<in> set (accounts d). \<exists>t \<in> set (account_types d).
              a_organization_id a = orgId \<and> a_account_type_id a = at_id t
              \<and> at_name t = ''Revenue'' \<and> ia_id acc = a_id a)
           \<and> ia_balance acc =
               sum_list (map (\<lambda>(l, e). jl_credit_amount l - jl_debit_amount l)
                 (filter (\<lambda>(l, e). jl_account_id l = ia_id acc \<and> je_organization_id e = orgId
                                   \<and> je_status e = ''posted''
                                   \<and> startDate \<le> je_date e \<and> je_date e \<le> endDate)
                    [(l, e). l \<leftarrow> journal_entry_lines d, e \<leftarrow> journal_entries d,
                             jl_journal_entry_id l = je_id e]))"
      unfolding period_total_def lines_join_entries_def revenue_amount_def by auto
  qed
  have e1: "\<forall>a \<in> set (accounts d). \<forall>t \<in> set (account_types d).
           a_organization_id a = orgId \<and> a_account_type_id a = at_id t \<and> at_name t = ''Expense''
           \<longrightarrow> (\<exists>acc \<in> set (fst ?exp). ia_id acc = a_id a)"
    using statement_side_covers [of _ d _ orgId "''Expense''" expense_amount startDate endDate]
    by blast
  have e2: "\<forall>acc \<in> set (fst ?exp).
           (\<exists>a \<in> set (accounts d). \<exists>t \<in> set (account_types d).
              a_organization_id a = orgId \<and> a_account_type_id a = at_id t
              \<and> at_name t = ''Expense'' \<and> ia_id acc = a_id a)
           \<and> ia_balance acc =
               sum_list (map (\<lambda>(l, e). jl_debit_amount l - jl_credit_amount l)
                 (filter (\<lambda>(l, e). jl_account_id l = ia_id acc \<and> je_organization_id e = orgId
                                   \<and> je_status e = ''posted''
                                   \<and> startDate \<le> je_date e \<and> je_date e \<le> endDate)
                    [(l, e). l \<leftarrow> journal_entry_lines d, e \<leftarrow> journal_entries d,
                             jl_journal_entry_id l = je_id e]))"
  proof
    fix acc
    assume "acc \<in> set (fst ?exp)"
    from statement_side_listed [OF this] obtain a t where
      "a \<in> set (accounts d)" "t \<in> set (account_types d)"
      "a_organization_id a = orgId" "a_account_type_id a = at_id t" "at_name t = ''Expense''"
      "ia_id acc = a_id a"
      "ia_balance acc = period_total d orgId expense_amount startDate endDate (a_id a)"
      by blast
    then show "(\<exists>a \<in> set (accounts d). \<exists>t \<in> set (account_types d).
              a_organization_id a = orgId \<and> a_account_type_id a = at_id t
              \<and> at_name t = ''Expense'' \<and> ia_id acc = a_id a)
           \<and> ia_balance acc =
               sum_list (map (\<lambda>(l, e). jl_debit_amount l - jl_credit_amount l)
                 (filter (\<lambda>(l, e). jl_account_id l = ia_id acc \<and> je_organization_id e = orgId
                                   \<and> je_status e = ''posted''
                                   \<and> startDate \<le> je_date e \<and> je_date e \<le> endDate)
                    [(l, e). l \<leftarrow> journal_entry_lines d, e \<leftarrow> journal_entries d,
                             jl_journal_entry_id l = je_id e]))"
      unfolding period_total_def lines_join_entries_def expense_amount_def by auto
  qed
  have t1: "snd ?rev = sum_list (map ia_balance (fst ?rev))"
    by (rule statement_side_total)
  have t2: "snd ?exp = sum_list (map ia_balance (fst ?exp))"
    by (rule statement_side_total)
  show ?thesis
    unfolding v
    apply (rule exI, rule conjI, rule refl)
    apply (simp only: income_statement_data.simps)
    apply (intro conjI)
    using r1 apply assumption
    using r2 apply assumption
    using e1 apply assumption
    using e2 apply assumption
    using t1 apply assumption
    using t2 apply assumption
    by (rule refl)
qed

theorem income_statement_totals_witness:
  "\<exists>data. income_statement income_db2 1 (Some 10) (Some 20) = Success 200 data
     \<and> map (\<lambda>acc. (ia_id acc, ia_balance acc)) (isd_revenueAccounts data)
         = [(2, (100 - 0) + (80 - 30))]
     \<and> map (\<lambda>acc. (ia_id acc, ia_balance acc)) (isd_expenseAccounts data) = [(3, 70 - 20)]
     \<and> isd_totalRevenue data = 150 \<and> isd_totalExpenses data = 50 \<and> isd_netIncome data = 100"
proof -
  have e: "income_statement income_db2 1 (Some 10) (Some 20) = Success 200 data \<Longrightarrow>
      map (\<lambda>acc. (ia_id acc, ia_balance acc)) (isd_revenueAccounts data)
         = [(2, (100 - 0) + (80 - 30))]
      \<and> map (\<lambda>acc. (ia_id acc, ia_balance acc)) (isd_expenseAccounts data) = [(3, 70 - 20)]
      \<and> isd_totalRevenue data = 150 \<and> isd_totalExpenses data = 50" for data
    by (auto simp: income_db2_value example_defs report_defs)
  from income_statement_totals [of income_db2 1 10 20] obtain data where
    "income_statement income_db2 1 (Some 10) (Some 20) = Success 200 data"
    "isd_netIncome data = isd_totalRevenue data - isd_totalExpenses data"
    by blast
  with e [of data] show ?thesis by simp
qed

text \<open>
  C8 at a concrete store. Organization 2 posts on day 15 an entry whose credit line of 40
  is on the sales account of organization 1, account 2; the posting succeeds. For days
  10 to 20 the income statement of organization 1 reports 150 for the account, the lines
  of its own two entries, while the posted lines of the account in the period add up to
  190.
\<close>

theorem income_statement_counterexample:
  "is_success (fst (post_journal_entry False (mk_body 2 15 [mk_line 7 40 0, mk_line 2 0 40])
                      income_db))
   \<and> reported_revenue (income_statement income_db2 1 (Some 10) (Some 20)) = [(2, 150)]
   \<and> spec_revenue_total income_db2 10 20 2 = 190"
  by (simp add: income_db2_value income_db_value example_defs posting_defs report_defs
        reported_revenue_def spec_revenue_total_def)

section \<open>Properties of updating an account\<close>

text \<open>
  The comparison of the parent check never holds for a number in the body, so an account
  of the organization passes the check as its own parent, whatever the path says.
\<close>

lemmas update_defs =
  update_account_def sql_integer_def parse_digits.simps digit_of_def parent_check_def
  sql_parameter_def apply_update_def joined_account_def accounts_join_types_def left_join_def
  first_row_def no_update_def is_success_def

lemma parent_check_self:
  assumes "a \<in> set (accounts d)" and "a_id a = n" and "a_organization_id a = orgId"
  shows "parent_check development d accountId orgId (JSNumber n) = None"
proof -
  from assms have "filter (\<lambda>a. a_id a = n \<and> a_organization_id a = orgId) (accounts d) \<noteq> []"
    by (auto simp: filter_empty_conv)
  then obtain p ps where
    "filter (\<lambda>a. a_id a = n \<and> a_organization_id a = orgId) (accounts d) = p # ps"
    by (cases "filter (\<lambda>a. a_id a = n \<and> a_organization_id a = orgId) (accounts d)") auto
  then show ?thesis
    by (simp add: parent_check_def sql_parameter_def first_row_def)
qed

text \<open>
  C9 at a concrete request. Account 1 of organization 1 is updated through the path
  \<open>/accounts/1/organization/1\<close> with the body \<open>{parentAccountId: 1}\<close>. The path
  parameter is the string \<open>'1'\<close> and the body field the number 1, which \<open>===\<close> tells
  apart; the lookup of the parent then finds the account itself, and the update is
  answered with success and stores the account as its own parent.
\<close>

theorem self_parent_accepted:
  "strict_equals (JSNumber 1) (JSString ''1'') = False
   \<and> is_success (fst (update_account False 99 ''1'' ''1''
                        (no_update\<lparr>u_parentAccountId := JSNumber 1\<rparr>) example_db))
   \<and> map a_id
        (accounts (snd (update_account False 99 ''1'' ''1''
                          (no_update\<lparr>u_parentAccountId := JSNumber 1\<rparr>) example_db)))
       = [1, 2, 3, 7]
   \<and> map a_parent_account_id
        (accounts (snd (update_account False 99 ''1'' ''1''
                          (no_update\<lparr>u_parentAccountId := JSNumber 1\<rparr>) example_db)))
       = [Some 1, None, None, None]"
  by (simp add: example_defs update_defs)

end
